theory Spec2Isabelle
  imports Complex_Main
begin

section \<open>Python floats\<close>

text \<open>
  The five methods of \<^verbatim>\<open>Model\<close> in frispy/model.py compute with Python floats. A
  Python \<^verbatim>\<open>float\<close> is an IEEE 754 binary64 number: a finite value, an infinity or a
  NaN. The two zeros are not told apart, which no statement below depends on. An
  \<^verbatim>\<open>int\<close> field such as \<^verbatim>\<open>999\<close> enters float arithmetic as the float of the same value.
\<close>

datatype pyfloat = Finite real | PosInf | NegInf | NaN

datatype py_error = OverflowError

subsection \<open>Rounding to binary64\<close>

text \<open>
  The largest finite binary64 number is \<open>(2\<^sup>5\<^sup>3 - 1)\<cdot>2\<^sup>9\<^sup>7\<^sup>1\<close>. A real \<open>x\<close> in the binade
  \<open>2\<^sup>e \<le> \<bar>x\<bar> < 2\<^sup>e\<^sup>+\<^sup>1\<close> is rounded to the nearest multiple of \<open>2\<^sup>e\<^sup>-\<^sup>5\<^sup>2\<close>, a tie going to
  the even multiple; below \<open>2\<^sup>-\<^sup>1\<^sup>0\<^sup>2\<^sup>2\<close> the spacing stays \<open>2\<^sup>-\<^sup>1\<^sup>0\<^sup>7\<^sup>4\<close>. A rounded value
  beyond the largest finite number becomes an infinity.
\<close>

definition DBL_MAX :: real where
  "DBL_MAX = (2 ^ 53 - 1) * 2 ^ 971"

definition round_half_even :: "real \<Rightarrow> int" where
  "round_half_even q =
     (let n = \<lfloor>q\<rfloor>; r = q - of_int n
      in if r < 1 / 2 then n else if 1 / 2 < r then n + 1 else if even n then n else n + 1)"

definition ulp_exponent :: "real \<Rightarrow> int" where
  "ulp_exponent x = max \<lfloor>log 2 \<bar>x\<bar>\<rfloor> (- 1022) - 52"

definition round64 :: "real \<Rightarrow> real" where
  "round64 x =
     (if x = 0 then 0
      else of_int (round_half_even (x / 2 powr of_int (ulp_exponent x)))
             * 2 powr of_int (ulp_exponent x))"

definition to_float :: "real \<Rightarrow> pyfloat" where
  "to_float x =
     (let y = round64 x
      in if DBL_MAX < y then PosInf else if y < - DBL_MAX then NegInf else Finite y)"

subsection \<open>The operators\<close>

text \<open>
  \<^verbatim>\<open>+\<close>, \<^verbatim>\<open>-\<close> and \<^verbatim>\<open>*\<close> on floats never raise: an overflow gives an infinity and an
  undefined combination gives a NaN. The power operator is different: for a finite
  base, CPython's \<^verbatim>\<open>float_pow\<close> calls the C library and turns an out-of-range result
  into \<^verbatim>\<open>OverflowError\<close>; an infinite base squared is the positive infinity and a NaN
  stays a NaN. \<open>float_pow2 a\<close> is \<^verbatim>\<open>a ** 2\<close>; the square of a finite base is taken
  as correctly rounded.
\<close>

fun float_add :: "pyfloat \<Rightarrow> pyfloat \<Rightarrow> pyfloat" where
  "float_add NaN b = NaN"
| "float_add a NaN = NaN"
| "float_add (Finite x) (Finite y) = to_float (x + y)"
| "float_add PosInf NegInf = NaN"
| "float_add NegInf PosInf = NaN"
| "float_add PosInf b = PosInf"
| "float_add NegInf b = NegInf"
| "float_add (Finite x) PosInf = PosInf"
| "float_add (Finite x) NegInf = NegInf"

fun float_sub :: "pyfloat \<Rightarrow> pyfloat \<Rightarrow> pyfloat" where
  "float_sub NaN b = NaN"
| "float_sub a NaN = NaN"
| "float_sub (Finite x) (Finite y) = to_float (x - y)"
| "float_sub PosInf PosInf = NaN"
| "float_sub NegInf NegInf = NaN"
| "float_sub PosInf b = PosInf"
| "float_sub NegInf b = NegInf"
| "float_sub (Finite x) PosInf = NegInf"
| "float_sub (Finite x) NegInf = PosInf"

fun float_sign :: "pyfloat \<Rightarrow> real" where
  "float_sign (Finite x) = sgn x"
| "float_sign PosInf = 1"
| "float_sign NegInf = - 1"
| "float_sign NaN = 0"

fun float_mul :: "pyfloat \<Rightarrow> pyfloat \<Rightarrow> pyfloat" where
  "float_mul NaN b = NaN"
| "float_mul a NaN = NaN"
| "float_mul (Finite x) (Finite y) = to_float (x * y)"
| "float_mul a b =
     (if float_sign a * float_sign b = 0 then NaN
      else if 0 < float_sign a * float_sign b then PosInf else NegInf)"

fun float_pow2 :: "pyfloat \<Rightarrow> py_error + pyfloat" where
  "float_pow2 NaN = Inr NaN"
| "float_pow2 PosInf = Inr PosInf"
| "float_pow2 NegInf = Inr PosInf"
| "float_pow2 (Finite x) =
     (case to_float (x * x) of Finite y \<Rightarrow> Inr (Finite y) | _ \<Rightarrow> Inl OverflowError)"

section \<open>The coefficient model of a disc (frispy/model.py)\<close>

text \<open>
  The dataclass \<^verbatim>\<open>Model\<close> holds eleven float parameters and five methods that map
  kinematic scalars to force and torque scale factors.
\<close>

record Model =
  PL0 :: pyfloat
  PLa :: pyfloat
  PD0 :: pyfloat
  PDa :: pyfloat
  PTxwx :: pyfloat
  PTxwz :: pyfloat
  PTy0 :: pyfloat
  PTya :: pyfloat
  PTywy :: pyfloat
  PTzwz :: pyfloat
  alpha_0 :: pyfloat

subsection \<open>The five methods\<close>

text \<open>
  Python's precedence makes \<^verbatim>\<open>**\<close> bind tighter than \<^verbatim>\<open>*\<close>, and \<^verbatim>\<open>*\<close> tighter than
  \<^verbatim>\<open>+\<close>; sums associate to the left. Each method returns its result, or the exception
  it raises, together with the object \<^verbatim>\<open>self\<close> as the call leaves it. No method body
  assigns to a field.
\<close>

definition C_lift :: "Model \<Rightarrow> pyfloat \<Rightarrow> (py_error + pyfloat) \<times> Model" where
  "C_lift self alpha = (Inr (float_add (PL0 self) (float_mul (PLa self) alpha)), self)"

definition C_drag :: "Model \<Rightarrow> pyfloat \<Rightarrow> (py_error + pyfloat) \<times> Model" where
  "C_drag self alpha =
     (case float_pow2 (float_sub alpha (alpha_0 self)) of
        Inl e \<Rightarrow> (Inl e, self)
      | Inr s \<Rightarrow> (Inr (float_add (PD0 self) (float_mul (PDa self) s)), self))"

definition C_x :: "Model \<Rightarrow> pyfloat \<Rightarrow> pyfloat \<Rightarrow> (py_error + pyfloat) \<times> Model" where
  "C_x self wx wz =
     (Inr (float_add (float_mul (PTxwx self) wx) (float_mul (PTxwz self) wz)), self)"

definition C_y :: "Model \<Rightarrow> pyfloat \<Rightarrow> pyfloat \<Rightarrow> (py_error + pyfloat) \<times> Model" where
  "C_y self alpha wy =
     (Inr (float_add (float_add (PTy0 self) (float_mul (PTywy self) wy))
             (float_mul (PTya self) alpha)), self)"

definition C_z :: "Model \<Rightarrow> pyfloat \<Rightarrow> (py_error + pyfloat) \<times> Model" where
  "C_z self wz = (Inr (float_mul (PTzwz self) wz), self)"

subsection \<open>The ten classes and their default instances\<close>

text \<open>
  \<^verbatim>\<open>Model\<close> and its nine subclasses. A dataclass subclass that annotates a field
  again replaces that field's default and inherits every other field, with its
  default, from the base class: \<open>Model_fields\<close> are the fields as the body of
  \<^verbatim>\<open>Model\<close> declares them. \<open>init c\<close> is the instance that calling class \<open>c\<close>
  with no argument constructs; an instance built with keyword arguments is a record
  update of it.

  A decimal literal denotes the binary64 number nearest to it. \<^verbatim>\<open>np.pi\<close> is the
  binary64 number nearest to \<open>\<pi>\<close>, which is \<open>884279719003555 / 2\<^sup>4\<^sup>8\<close>; four times it
  is exact, and the quotient by 180 is rounded.
\<close>

datatype model_class =
    Model
  | JankieModel
  | HummelModel
  | AviarModel
  | BuzzModel
  | RocModel
  | FlickModel
  | StormModel
  | WraithModel
  | QuarterModel

definition np_pi :: real where
  "np_pi = 884279719003555 / 2 ^ 48"

definition Model_fields :: Model where
  "Model_fields =
     \<lparr>PL0 = to_float 0.33, PLa = to_float 1.9, PD0 = to_float 0.18, PDa = to_float 0.69,
      PTxwx = to_float (- 0.013), PTxwz = to_float (- 0.0017), PTy0 = to_float (- 0.082),
      PTya = to_float 0.43, PTywy = to_float (- 0.014), PTzwz = to_float (- 0.000034),
      alpha_0 = to_float (4 * np_pi / 180)\<rparr>"

fun init :: "model_class \<Rightarrow> Model" where
  "init Model = Model_fields"
| "init JankieModel =
     Model_fields\<lparr>PL0 := to_float 999, PLa := to_float 999, PD0 := to_float 999,
       PTy0 := to_float (- 999), PTya := to_float 999\<rparr>"
| "init HummelModel =
     Model_fields\<lparr>PL0 := to_float 0.33, PLa := to_float 1.9, PD0 := to_float 0.18,
       PTy0 := to_float (- 0.082), PTya := to_float 0.43\<rparr>"
| "init AviarModel =
     Model_fields\<lparr>PL0 := to_float 0.152, PLa := to_float 0.044, PD0 := to_float 0.083,
       PTy0 := to_float (- 0.018), PTya := to_float 0.002\<rparr>"
| "init BuzzModel =
     Model_fields\<lparr>PL0 := to_float 0.099, PLa := to_float 0.041, PD0 := to_float 0.061,
       PTy0 := to_float (- 0.033), PTya := to_float 0.004\<rparr>"
| "init RocModel =
     Model_fields\<lparr>PL0 := to_float 0.053, PLa := to_float 0.043, PD0 := to_float 0.067,
       PTy0 := to_float (- 0.015), PTya := to_float 0.003\<rparr>"
| "init FlickModel =
     Model_fields\<lparr>PL0 := to_float 0.100, PLa := to_float 0.038, PD0 := to_float 0.076,
       PTy0 := to_float (- 0.007), PTya := to_float 0.008\<rparr>"
| "init StormModel =
     Model_fields\<lparr>PL0 := to_float 0.107, PLa := to_float 0.045, PD0 := to_float 0.057,
       PTy0 := to_float (- 0.026), PTya := to_float 0.004\<rparr>"
| "init WraithModel =
     Model_fields\<lparr>PL0 := to_float 0.143, PLa := to_float 0.040, PD0 := to_float 0.055,
       PTy0 := to_float (- 0.020), PTya := to_float 0.006\<rparr>"
| "init QuarterModel =
     Model_fields\<lparr>PL0 := to_float 0.138, PLa := to_float 0.039, PD0 := to_float 0.065,
       PTy0 := to_float (- 0.038), PTya := to_float 0.005\<rparr>"

subsection \<open>Method lookup\<close>

text \<open>
  A class body is a namespace from names to the functions its \<^verbatim>\<open>def\<close> statements
  bind. The body of \<^verbatim>\<open>Model\<close> binds the five methods; no subclass body contains a
  \<^verbatim>\<open>def\<close>. Every subclass statement names \<^verbatim>\<open>Model\<close> as its only base, so the method
  resolution order of a subclass is the subclass, then \<^verbatim>\<open>Model\<close>. A call
  \<^verbatim>\<open>obj.C_lift(a)\<close> runs the function bound to \<^verbatim>\<open>C_lift\<close> in the first class of that
  order whose body binds the name.
\<close>

datatype py_function =
    Unary "Model \<Rightarrow> pyfloat \<Rightarrow> (py_error + pyfloat) \<times> Model"
  | Binary "Model \<Rightarrow> pyfloat \<Rightarrow> pyfloat \<Rightarrow> (py_error + pyfloat) \<times> Model"

fun class_methods :: "model_class \<Rightarrow> string \<rightharpoonup> py_function" where
  "class_methods Model =
     [''C_lift'' \<mapsto> Unary C_lift, ''C_drag'' \<mapsto> Unary C_drag, ''C_x'' \<mapsto> Binary C_x,
      ''C_y'' \<mapsto> Binary C_y, ''C_z'' \<mapsto> Unary C_z]"
| "class_methods c = Map.empty"

fun bases :: "model_class \<Rightarrow> model_class list" where
  "bases Model = []"
| "bases c = [Model]"

definition mro :: "model_class \<Rightarrow> model_class list" where
  "mro c = c # bases c"

fun lookup :: "model_class list \<Rightarrow> string \<Rightarrow> py_function option" where
  "lookup [] name = None"
| "lookup (k # ks) name =
     (case class_methods k name of Some f \<Rightarrow> Some f | None \<Rightarrow> lookup ks name)"

definition lookup_method :: "model_class \<Rightarrow> string \<Rightarrow> py_function option" where
  "lookup_method c name = lookup (mro c) name"

definition presets :: "model_class list" where
  "presets = [JankieModel, HummelModel, AviarModel, BuzzModel, RocModel, FlickModel,
              StormModel, WraithModel, QuarterModel]"

section \<open>Properties of rounding\<close>

subsection \<open>Rounding keeps a value on its side of a power of two\<close>

lemma round_half_even_le: "q \<le> of_int N \<Longrightarrow> round_half_even q \<le> N"
  unfolding round_half_even_def Let_def
  by (auto simp: floor_le_iff)

lemma round_half_even_ge: "of_int N \<le> q \<Longrightarrow> N \<le> round_half_even q"
proof -
  assume "of_int N \<le> q"
  then have "N \<le> \<lfloor>q\<rfloor>" by (simp add: le_floor_iff)
  then show ?thesis unfolding round_half_even_def Let_def by auto
qed

lemma ulp_exponent_le:
  assumes "x \<noteq> 0" "\<bar>x\<bar> \<le> 2 powr of_int k" "- 1022 \<le> k"
  shows "ulp_exponent x + 52 \<le> k"
proof -
  have "log 2 \<bar>x\<bar> \<le> of_int k" using assms by (simp add: log_le_iff)
  then have "\<lfloor>log 2 \<bar>x\<bar>\<rfloor> \<le> k" by (simp add: floor_le_iff)
  then show ?thesis using assms by (simp add: ulp_exponent_def)
qed

lemma ulp_exponent_ge:
  assumes "2 powr of_int k \<le> \<bar>x\<bar>"
  shows "k \<le> ulp_exponent x + 52"
proof -
  have "0 < \<bar>x\<bar>" using assms powr_gt_zero [of 2 "of_int k"] by linarith
  then have "of_int k \<le> log 2 \<bar>x\<bar>" using assms by (simp add: le_log_iff)
  then have "k \<le> \<lfloor>log 2 \<bar>x\<bar>\<rfloor>" by (simp add: le_floor_iff)
  then show ?thesis by (simp add: ulp_exponent_def)
qed

lemma ulp_exponent_below:
  assumes "2 powr of_int k \<le> \<bar>x\<bar>" "- 1022 \<le> k"
  shows "2 powr of_int (ulp_exponent x + 52) \<le> \<bar>x\<bar>"
proof (cases "- 1022 \<le> \<lfloor>log 2 \<bar>x\<bar>\<rfloor>")
  case True
  have pos: "0 < \<bar>x\<bar>" using assms powr_gt_zero [of 2 "of_int k"] by linarith
  have "ulp_exponent x + 52 = \<lfloor>log 2 \<bar>x\<bar>\<rfloor>" using True by (simp add: ulp_exponent_def)
  moreover have "of_int \<lfloor>log 2 \<bar>x\<bar>\<rfloor> \<le> log 2 \<bar>x\<bar>" by simp
  ultimately show ?thesis using pos by (simp add: le_log_iff del: of_int_floor_le)
next
  case False
  then have "ulp_exponent x + 52 = - 1022" by (simp add: ulp_exponent_def)
  then have "(2::real) powr of_int (ulp_exponent x + 52) = 2 powr of_int (- 1022)"
    by (simp only:)
  moreover have "(2::real) powr of_int (- 1022) \<le> 2 powr of_int k" using assms by simp
  ultimately show ?thesis using assms(1) by linarith
qed

lemma round64_abs_le:
  assumes "\<bar>x\<bar> \<le> 2 powr of_int k" "- 1022 \<le> k"
  shows "\<bar>round64 x\<bar> \<le> 2 powr of_int k"
proof (cases "x = 0")
  case True
  then show ?thesis by (simp add: round64_def)
next
  case False
  define e where "e = ulp_exponent x"
  define u :: real where "u = 2 powr of_int e"
  define N :: int where "N = 2 ^ nat (k - e)"
  have u: "0 < u" by (simp add: u_def)
  have ek: "e \<le> k" using ulp_exponent_le [OF False assms] by (simp add: e_def)
  have Nu: "of_int N * u = 2 powr of_int k"
  proof -
    have "real (nat (k - e)) = of_int (k - e)" using ek by simp
    then have "(2::real) powr of_int (k - e) = 2 ^ nat (k - e)"
      using powr_realpow [of 2 "nat (k - e)"] by simp
    then have "of_int N = (2::real) powr of_int (k - e)" by (simp add: N_def)
    then have "of_int N * u = 2 powr (of_int (k - e) + of_int e)"
      unfolding u_def by (simp only: powr_add)
    then show ?thesis by simp
  qed
  have "\<bar>x\<bar> \<le> of_int N * u" using assms Nu by simp
  then have "x \<le> of_int N * u" "- (of_int N * u) \<le> x" by linarith+
  then have "x / u \<le> of_int N" "of_int (- N) \<le> x / u"
    using u by (simp_all add: pos_divide_le_eq pos_le_divide_eq)
  then have "round_half_even (x / u) \<le> N" "- N \<le> round_half_even (x / u)"
    by (auto intro: round_half_even_le round_half_even_ge)
  then have "\<bar>of_int (round_half_even (x / u)) :: real\<bar> \<le> of_int N"
    by linarith
  then have "\<bar>of_int (round_half_even (x / u)) * u\<bar> \<le> of_int N * u"
    using u by (simp add: abs_mult)
  then show ?thesis using False Nu by (simp add: round64_def e_def u_def)
qed

lemma round64_abs_ge:
  assumes "2 powr of_int k \<le> \<bar>x\<bar>" "- 1022 \<le> k"
  shows "2 powr of_int k \<le> \<bar>round64 x\<bar>"
proof -
  define e where "e = ulp_exponent x"
  define u :: real where "u = 2 powr of_int e"
  have x0: "x \<noteq> 0" using assms powr_gt_zero [of 2 "of_int k"] by auto
  have u: "0 < u" by (simp add: u_def)
  have ke: "k \<le> e + 52" using ulp_exponent_ge [OF assms(1)] by (simp add: e_def)
  have "2 powr of_int (e + 52) \<le> \<bar>x\<bar>" using ulp_exponent_below [OF assms] by (simp add: e_def)
  moreover have "(2::real) powr of_int (e + 52) = 2 ^ 52 * u"
    by (simp add: u_def powr_add)
  ultimately have "2 ^ 52 \<le> \<bar>x / u\<bar>" using u by (simp add: pos_le_divide_eq)
  then have "of_int (2 ^ 52) \<le> x / u \<or> x / u \<le> of_int (- (2 ^ 52))" by auto
  then have "2 ^ 52 \<le> round_half_even (x / u) \<or> round_half_even (x / u) \<le> - (2 ^ 52)"
    using round_half_even_ge [of "2 ^ 52" "x / u"] round_half_even_le [of "x / u" "- (2 ^ 52)"]
    by blast
  then have "(2::int) ^ 52 \<le> \<bar>round_half_even (x / u)\<bar>" by linarith
  then have "(of_int (2 ^ 52) :: real) \<le> of_int \<bar>round_half_even (x / u)\<bar>"
    by (simp only: of_int_le_iff)
  then have "(2::real) ^ 52 \<le> \<bar>of_int (round_half_even (x / u))\<bar>" by simp
  then have "2 ^ 52 * u \<le> \<bar>of_int (round_half_even (x / u)) * u\<bar>"
    using u by (simp add: abs_mult)
  moreover have "(2::real) powr of_int k \<le> 2 powr of_int (e + 52)" using ke by simp
  moreover have "(2::real) powr of_int (e + 52) = 2 ^ 52 * u"
    by (simp add: u_def powr_add)
  ultimately have "2 powr of_int k \<le> \<bar>of_int (round_half_even (x / u)) * u\<bar>"
    by linarith
  then show ?thesis using x0 by (simp add: round64_def e_def u_def)
qed

lemma DBL_MAX_bounds: "2 ^ 1023 \<le> DBL_MAX" "DBL_MAX < 2 ^ 1024"
proof -
  have "(2::real) ^ 1023 = 2 ^ 52 * 2 ^ 971" "(2::real) ^ 1024 = 2 ^ 53 * 2 ^ 971"
    by (simp_all only: power_add [symmetric]) simp_all
  moreover have "(2::real) ^ 52 \<le> 2 ^ 53 - 1" "(2::real) ^ 53 - 1 < 2 ^ 53" by simp_all
  ultimately show "2 ^ 1023 \<le> DBL_MAX" "DBL_MAX < 2 ^ 1024"
    unfolding DBL_MAX_def by (simp_all only: mult_le_cancel_right mult_less_cancel_right) simp_all
qed

lemma to_float_Finite:
  assumes "\<bar>x\<bar> \<le> 2 ^ n" "n \<le> 1023"
  shows "to_float x = Finite (round64 x)"
proof -
  have "\<bar>x\<bar> \<le> 2 powr of_int (int n)" using assms(1) by (simp add: powr_realpow)
  then have "\<bar>round64 x\<bar> \<le> 2 powr of_int (int n)" by (rule round64_abs_le) simp
  then have "\<bar>round64 x\<bar> \<le> 2 ^ n" by (simp add: powr_realpow)
  moreover have "(2::real) ^ n \<le> 2 ^ 1023" using assms(2) by (intro power_increasing) simp_all
  ultimately have "\<bar>round64 x\<bar> \<le> DBL_MAX" using DBL_MAX_bounds(1) by linarith
  then have "\<not> DBL_MAX < round64 x" "\<not> round64 x < - DBL_MAX" by linarith+
  then show ?thesis by (simp add: to_float_def Let_def)
qed

lemma round64_le_pow: "\<bar>x\<bar> \<le> 2 ^ n \<Longrightarrow> \<bar>round64 x\<bar> \<le> 2 ^ n"
  using round64_abs_le [of x "int n"] by (simp add: powr_realpow)

lemma round64_ge_pow: "2 ^ n \<le> \<bar>x\<bar> \<Longrightarrow> 2 ^ n \<le> \<bar>round64 x\<bar>"
  using round64_abs_ge [of "int n" x] by (simp add: powr_realpow)

lemma float_pow2_in_range:
  assumes "\<bar>x\<bar> \<le> 2 ^ 511"
  shows "float_pow2 (Finite x) = Inr (Finite (round64 (x * x)))"
proof -
  have "\<bar>x\<bar> * \<bar>x\<bar> \<le> 2 ^ 511 * 2 ^ 511" using assms by (intro mult_mono) simp_all
  then have "\<bar>x * x\<bar> \<le> 2 ^ 1022" by (simp add: abs_mult)
  then have "to_float (x * x) = Finite (round64 (x * x))" by (rule to_float_Finite) simp
  then show ?thesis by simp
qed

lemma float_pow2_overflow:
  assumes "2 ^ 512 \<le> \<bar>x\<bar>"
  shows "float_pow2 (Finite x) = Inl OverflowError"
proof -
  have "2 ^ 512 * 2 ^ 512 \<le> \<bar>x\<bar> * \<bar>x\<bar>" using assms by (intro mult_mono) simp_all
  then have "2 ^ 1024 \<le> \<bar>x * x\<bar>" by (simp add: abs_mult)
  then have "2 ^ 1024 \<le> \<bar>round64 (x * x)\<bar>" by (rule round64_ge_pow)
  moreover have "0 \<le> round64 (x * x)"
    unfolding round64_def
    by (auto intro!: mult_nonneg_nonneg simp: round_half_even_ge [of 0, simplified])
  ultimately have "DBL_MAX < round64 (x * x)" using DBL_MAX_bounds(2) by linarith
  then show ?thesis by (simp add: to_float_def Let_def)
qed

subsection \<open>Rounding of a number in a known binade\<close>

lemma ulp_exponent_eq:
  assumes "2 powr of_int k \<le> \<bar>x\<bar>" "\<bar>x\<bar> < 2 powr of_int (k + 1)" "- 1022 \<le> k"
  shows "ulp_exponent x = k - 52"
proof -
  have "0 < \<bar>x\<bar>" using assms(1) powr_gt_zero [of 2 "of_int k"] by linarith
  then have "\<lfloor>log 2 \<bar>x\<bar>\<rfloor> = k" using assms(1,2) by (simp add: floor_log_eq_powr_iff)
  then show ?thesis using assms(3) by (simp add: ulp_exponent_def)
qed

lemma round_half_even_above:
  "of_int n + 1 / 2 < q \<Longrightarrow> q < of_int n + 1 \<Longrightarrow> round_half_even q = n + 1"
proof -
  assume a: "of_int n + 1 / 2 < q" "q < of_int n + 1"
  then have "\<lfloor>q\<rfloor> = n" by (simp add: floor_eq_iff)
  then show ?thesis using a by (simp add: round_half_even_def Let_def)
qed

lemma round64_eval:
  assumes "2 powr of_int k \<le> \<bar>x\<bar>" "\<bar>x\<bar> < 2 powr of_int (k + 1)" "- 1022 \<le> k"
    and "round_half_even (x / 2 powr of_int (k - 52)) = n"
  shows "round64 x = of_int n * 2 powr of_int (k - 52)"
proof -
  have "x \<noteq> 0" using assms(1) powr_gt_zero [of 2 "of_int k"] by auto
  then show ?thesis
    unfolding round64_def ulp_exponent_eq [OF assms(1-3)] assms(4) by simp
qed

subsection \<open>Rounding to the nearest integer\<close>

lemma round_half_even_of_int: "round_half_even (of_int n) = n"
  by (simp add: round_half_even_def)

lemma round_half_even_tie:
  "round_half_even (of_int n + 1 / 2) = (if even n then n else n + 1)"
proof -
  have "\<lfloor>of_int n + 1 / 2 :: real\<rfloor> = n" by (simp add: floor_eq_iff)
  then show ?thesis by (simp add: round_half_even_def Let_def)
qed

lemma round_half_even_error: "\<bar>of_int (round_half_even q) - q\<bar> \<le> 1 / 2"
proof -
  define n where "n = \<lfloor>q\<rfloor>"
  define r where "r = q - of_int n"
  have r: "0 \<le> r" "r < 1" unfolding r_def n_def by linarith+
  have q: "q = of_int n + r" by (simp add: r_def)
  have "round_half_even q =
      (if r < 1 / 2 then n else if 1 / 2 < r then n + 1 else if even n then n else n + 1)"
    by (simp only: round_half_even_def Let_def r_def n_def)
  then show ?thesis using r unfolding q by (auto simp: abs_if)
qed


lemma round_half_even_minus: "round_half_even (- q) = - round_half_even q"
proof (cases "q = of_int \<lfloor>q\<rfloor>")
  case True
  then obtain n where "q = of_int n" ..
  then show ?thesis using round_half_even_of_int [of "- n"] by (simp add: round_half_even_of_int)
next
  case False
  then have f: "\<lfloor>- q\<rfloor> = - \<lfloor>q\<rfloor> - 1" by (simp add: floor_eq_iff) linarith
  have lt: "of_int \<lfloor>q\<rfloor> < q" using False by linarith
  show ?thesis
    unfolding round_half_even_def Let_def f using lt
    by (auto simp: algebra_simps)
qed

subsection \<open>Sign, error and monotonicity of a rounding\<close>

text \<open>
  One rounding moves a real \<open>x\<close> by at most \<open>\<bar>x\<bar> / 2\<^sup>5\<^sup>3 + 2\<^sup>-\<^sup>1\<^sup>0\<^sup>7\<^sup>5\<close>: half a unit in the last
  place of a normal number, or half the spacing \<open>2\<^sup>-\<^sup>1\<^sup>0\<^sup>7\<^sup>4\<close> of the subnormal numbers.
  Rounding is odd and monotone, and a number \<open>n\<cdot>2\<^sup>e\<close> with \<open>\<bar>n\<bar> < 2\<^sup>5\<^sup>3\<close> and
  \<open>-1074 \<le> e\<close> is its own rounding.
\<close>

lemma ulp_exponent_minus: "ulp_exponent (- x) = ulp_exponent x"
  by (simp add: ulp_exponent_def)

lemma round64_minus: "round64 (- x) = - round64 x"
  by (simp add: round64_def ulp_exponent_minus round_half_even_minus)

lemma round64_nonneg: "0 \<le> x \<Longrightarrow> 0 \<le> round64 x"
  unfolding round64_def
  by (auto intro!: mult_nonneg_nonneg simp: round_half_even_ge [of 0, simplified])

lemma round64_nonpos: "x \<le> 0 \<Longrightarrow> round64 x \<le> 0"
  using round64_nonneg [of "- x"] by (simp add: round64_minus)

lemma round64_error_ulp: "\<bar>round64 x - x\<bar> \<le> 2 powr of_int (ulp_exponent x) / 2"
proof (cases "x = 0")
  case True
  then show ?thesis by (simp add: round64_def)
next
  case False
  define u :: real where "u = 2 powr of_int (ulp_exponent x)"
  have u: "0 < u" by (simp add: u_def)
  have "round64 x - x = (of_int (round_half_even (x / u)) - x / u) * u"
    using False u by (simp add: round64_def u_def algebra_simps)
  then have "\<bar>round64 x - x\<bar> = \<bar>of_int (round_half_even (x / u)) - x / u\<bar> * u"
    using u by (simp add: abs_mult)
  also have "\<dots> \<le> 1 / 2 * u"
    using u round_half_even_error [of "x / u"] by (intro mult_right_mono) simp_all
  finally show ?thesis by (simp add: u_def)
qed

lemma ulp_exponent_subnormal:
  assumes "x \<noteq> 0" "\<bar>x\<bar> < 2 powr of_int (- 1022)"
  shows "ulp_exponent x = - 1074"
proof -
  have "log 2 \<bar>x\<bar> < of_int (- 1022)" using assms by (simp add: log_less_iff)
  then have "\<lfloor>log 2 \<bar>x\<bar>\<rfloor> \<le> - 1022" by (simp add: floor_le_iff)
  then show ?thesis by (simp add: ulp_exponent_def)
qed

lemma round64_error: "\<bar>round64 x - x\<bar> \<le> \<bar>x\<bar> / 2 ^ 53 + 1 / 2 ^ 1075"
proof (cases "x = 0 \<or> 2 powr of_int (- 1022) \<le> \<bar>x\<bar>")
  case True
  then consider "x = 0" | "2 powr of_int (- 1022) \<le> \<bar>x\<bar>" by blast
  then show ?thesis
  proof cases
    case 1
    then show ?thesis by (simp add: round64_def)
  next
    case 2
    have "2 powr of_int (ulp_exponent x + 52) \<le> \<bar>x\<bar>"
      using 2 by (rule ulp_exponent_below) simp
  moreover have "(2::real) powr of_int (ulp_exponent x + 52) = 2 ^ 52 * 2 powr of_int (ulp_exponent x)"
    by (simp add: powr_add)
    ultimately have "2 powr of_int (ulp_exponent x) / 2 \<le> \<bar>x\<bar> / 2 ^ 53" by simp
    then show ?thesis using round64_error_ulp [of x] by simp
  qed
next
  case False
  then have "ulp_exponent x = - 1074" by (intro ulp_exponent_subnormal) simp_all
  then have "(2::real) powr of_int (ulp_exponent x) / 2 = 2 powr of_int (- 1074) / 2"
    by (simp only:)
  also have "\<dots> = 1 / 2 ^ 1075" by (simp add: powr_minus_divide)
  finally have "\<bar>round64 x - x\<bar> \<le> 1 / 2 ^ 1075"
    using round64_error_ulp [of x] by (simp only:)
  moreover have "0 \<le> \<bar>x\<bar> / 2 ^ 53" by simp
  ultimately show ?thesis by (rule add_increasing [OF _ _, rotated]) 
qed

lemma round_half_even_small: "\<bar>q\<bar> < 1 / 2 \<Longrightarrow> round_half_even q = 0"
  using round_half_even_error [of q] by linarith

lemma round64_tiny:
  assumes "\<bar>x\<bar> < 1 / 2 ^ 1075"
  shows "round64 x = 0"
proof (cases "x = 0")
  case True
  then show ?thesis by (simp add: round64_def)
next
  case False
  have "(1::real) / 2 ^ 1075 \<le> 1 / 2 ^ 1022" by (simp add: field_simps)
  then have "\<bar>x\<bar> < 2 powr of_int (- 1022)" using assms by (simp add: powr_minus_divide)
  then have e: "ulp_exponent x = - 1074" using False by (intro ulp_exponent_subnormal)
  have "\<bar>x / 2 powr of_int (- 1074)\<bar> < 1 / 2"
    using assms by (simp add: powr_minus_divide field_simps)
  then have "round_half_even (x / 2 powr of_int (- 1074)) = 0"
    by (rule round_half_even_small)
  then show ?thesis by (simp add: round64_def e)
qed

lemma to_float_FiniteD:
  "to_float x = Finite y \<Longrightarrow> y = round64 x \<and> \<bar>y\<bar> \<le> DBL_MAX"
  by (auto simp: to_float_def Let_def split: if_splits)


lemma ulp_exponent_less:
  assumes "x \<noteq> 0" "\<bar>x\<bar> < 2 powr of_int (k + 1)" "- 1022 \<le> k"
  shows "ulp_exponent x + 52 \<le> k"
proof -
  have "log 2 \<bar>x\<bar> < of_int (k + 1)" using assms by (simp add: log_less_iff)
  then have "\<lfloor>log 2 \<bar>x\<bar>\<rfloor> < k + 1" by (simp only: floor_less_iff)
  then show ?thesis using assms(3) by (simp add: ulp_exponent_def)
qed

lemma round64_representable:
  assumes "\<bar>n\<bar> < 2 ^ 53" "- 1074 \<le> e"
  shows "round64 (of_int n * 2 powr of_int e) = of_int n * 2 powr of_int e"
proof (cases "n = 0")
  case True
  then show ?thesis by (simp add: round64_def)
next
  case False
  define x :: real where "x = of_int n * 2 powr of_int e"
  define m where "m = nat (e - ulp_exponent x)"
  define u :: real where "u = 2 powr of_int (ulp_exponent x)"
  have x0: "x \<noteq> 0" using False by (simp add: x_def)
  have u: "0 < u" by (simp add: u_def)
  have "(of_int \<bar>n\<bar> :: real) < of_int (2 ^ 53)" using assms(1) by (simp only: of_int_less_iff)
  then have "\<bar>x\<bar> < 2 ^ 53 * 2 powr of_int e" by (simp add: x_def abs_mult)
  also have "\<dots> = 2 powr of_int (e + 52 + 1)" by (simp add: powr_add)
  finally have "ulp_exponent x + 52 \<le> e + 52"
    using x0 assms(2) by (intro ulp_exponent_less) simp_all
  then have ue: "ulp_exponent x \<le> e" by simp
  then have "real m = of_int (e - ulp_exponent x)" by (simp add: m_def)
  then have "(2::real) powr of_int (e - ulp_exponent x) = 2 ^ m"
    using powr_realpow [of 2 m] by simp
  moreover have "(2::real) powr of_int e = 2 powr of_int (e - ulp_exponent x) * u"
    by (simp add: u_def powr_add [symmetric])
  ultimately have pe: "(2::real) powr of_int e = 2 ^ m * u" by simp
  have xu: "x = of_int (n * 2 ^ m) * u" using pe by (simp add: x_def)
  then have "x / u = of_int (n * 2 ^ m)" using u by simp
  then have "round_half_even (x / u) = n * 2 ^ m"
    by (simp only: round_half_even_of_int)
  then have "round64 x = of_int (n * 2 ^ m) * u"
    using x0 by (simp add: round64_def u_def)
  then have "round64 x = x" using xu by simp
  then show ?thesis by (simp only: x_def)
qed


subsection \<open>Operators on finite operands, and the error of a rounded sum\<close>

lemma to_float_zero: "to_float 0 = Finite 0"
  by (simp add: to_float_def round64_def DBL_MAX_def)

lemma float_mul_Finite:
  "\<bar>x * y\<bar> \<le> 2 ^ n \<Longrightarrow> n \<le> 1023 \<Longrightarrow> float_mul (Finite x) (Finite y) = Finite (round64 (x * y))"
  by (simp add: to_float_Finite)

lemma float_add_Finite:
  "\<bar>x + y\<bar> \<le> 2 ^ n \<Longrightarrow> n \<le> 1023 \<Longrightarrow> float_add (Finite x) (Finite y) = Finite (round64 (x + y))"
  by (simp add: to_float_Finite)

lemma to_float_representable:
  "round64 x = x \<Longrightarrow> \<bar>x\<bar> \<le> 2 ^ 1023 \<Longrightarrow> to_float x = Finite x"
  using to_float_Finite [of x 1023] by simp

lemma eta_multiples:
  "4 * ((1::real) / 2 ^ 1075) = 1 / 2 ^ 1073" "8 * ((1::real) / 2 ^ 1075) = 1 / 2 ^ 1072"
  by simp_all

lemma sum_error:
  assumes "\<bar>s - a\<bar> \<le> ea" "\<bar>t - b\<bar> \<le> eb" "\<eta> = 1 / 2 ^ 1075"
  shows "\<bar>round64 (s + t) - (a + b)\<bar> \<le> (\<bar>a\<bar> + \<bar>b\<bar> + ea + eb) / 2 ^ 53 + \<eta> + ea + eb"
proof -
  have "\<bar>round64 (s + t) - (s + t)\<bar> \<le> \<bar>s + t\<bar> / 2 ^ 53 + \<eta>"
    unfolding assms(3) by (rule round64_error)
  moreover have "\<bar>s + t\<bar> \<le> \<bar>a\<bar> + \<bar>b\<bar> + ea + eb" using assms(1,2) by linarith
  then have "\<bar>s + t\<bar> / 2 ^ 53 \<le> (\<bar>a\<bar> + \<bar>b\<bar> + ea + eb) / 2 ^ 53"
    by (rule divide_right_mono) simp
  ultimately show ?thesis using assms(1,2) by linarith
qed

lemma pow_double: "(2::real) ^ n + 2 ^ n = 2 ^ Suc n"
  by simp

lemma prod_error:
  assumes "\<eta> = 1 / 2 ^ 1075"
  shows "\<bar>round64 x - x\<bar> \<le> \<bar>x\<bar> / 2 ^ 53 + \<eta>"
  unfolding assms by (rule round64_error)

subsection \<open>A finite result comes from finite operands\<close>

lemma to_float_in_range: "\<bar>round64 x\<bar> \<le> DBL_MAX \<Longrightarrow> to_float x = Finite (round64 x)"
proof -
  assume "\<bar>round64 x\<bar> \<le> DBL_MAX"
  then have "\<not> DBL_MAX < round64 x" "\<not> round64 x < - DBL_MAX" by linarith+
  then show ?thesis by (simp add: to_float_def Let_def)
qed

lemma to_float_binary64:
  "round64 x = x \<Longrightarrow> \<bar>x\<bar> \<le> DBL_MAX \<Longrightarrow> to_float x = Finite x"
  using to_float_in_range [of x] by simp

lemma float_add_FiniteD:
  "float_add a b = Finite v \<Longrightarrow> \<exists>x y. a = Finite x \<and> b = Finite y \<and> v = round64 (x + y)"
  by (cases a; cases b) (auto dest: to_float_FiniteD split: if_splits)

lemma float_mul_FiniteD:
  "float_mul a b = Finite v \<Longrightarrow> \<exists>x y. a = Finite x \<and> b = Finite y \<and> v = round64 (x * y)"
  by (cases a; cases b) (auto dest: to_float_FiniteD split: if_splits)



subsection \<open>The three sums of products\<close>

lemma lift_error:
  fixes p0 pa a :: real
  shows "\<bar>round64 (p0 + round64 (pa * a)) - (p0 + pa * a)\<bar>
      \<le> (\<bar>p0\<bar> + \<bar>pa * a\<bar>) / 2 ^ 51 + 1 / 2 ^ 1073"
proof -
  define t where "t = round64 (pa * a)"
  define \<eta> :: real where "\<eta> = 1 / 2 ^ 1075"
  define eb where "eb = \<bar>pa * a\<bar> / 2 ^ 53 + \<eta>"
  have \<eta>: "0 \<le> \<eta>" by (simp add: \<eta>_def)
  have "\<bar>t - pa * a\<bar> \<le> eb" unfolding t_def eb_def using \<eta>_def by (rule prod_error)
  then have "\<bar>round64 (p0 + t) - (p0 + pa * a)\<bar>
      \<le> (\<bar>p0\<bar> + \<bar>pa * a\<bar> + 0 + eb) / 2 ^ 53 + \<eta> + 0 + eb"
    using \<eta>_def by (intro sum_error) simp_all
  also have "\<dots> \<le> (\<bar>p0\<bar> + \<bar>pa * a\<bar>) / 2 ^ 51 + 4 * \<eta>"
    unfolding eb_def using \<eta> by (simp add: field_simps)
  finally show ?thesis
    unfolding t_def \<eta>_def eta_multiples .
qed

lemma C_lift_FiniteD:
  assumes "fst (C_lift m alpha) = Inr (Finite v)"
    and "PL0 m = Finite p0" "PLa m = Finite pa" "alpha = Finite a"
  shows "v = round64 (p0 + round64 (pa * a))"
proof -
  have v: "float_add (PL0 m) (float_mul (PLa m) alpha) = Finite v"
    using assms(1) by (simp add: C_lift_def)
  obtain t where t: "float_mul (PLa m) alpha = Finite t" and vt: "v = round64 (p0 + t)"
    using float_add_FiniteD [OF v] assms(2) by auto
  have "t = round64 (pa * a)" using float_mul_FiniteD [OF t] assms(3,4) by auto
  then show ?thesis using vt by simp
qed

lemma C_lift_in_range:
  assumes h: "PL0 m = Finite p0 \<and> PLa m = Finite pa \<and> alpha = Finite a \<and>
    \<bar>p0\<bar> \<le> 2 ^ 1022 \<and> \<bar>pa * a\<bar> \<le> 2 ^ 1022"
  shows "C_lift m alpha = (Inr (Finite (round64 (p0 + round64 (pa * a)))), m)"
proof -
  define t where "t = round64 (pa * a)"
  have t: "\<bar>t\<bar> \<le> 2 ^ 1022" unfolding t_def using h by (intro round64_le_pow) simp
  have mul: "float_mul (PLa m) alpha = Finite t"
    unfolding t_def using h float_mul_Finite [of pa a 1022] by simp
  have "\<bar>p0 + t\<bar> \<le> 2 ^ 1022 + 2 ^ 1022" using h t by linarith
  also have "\<dots> = (2::real) ^ 1023" by (simp only: pow_double) simp
  finally have "float_add (Finite p0) (Finite t) = Finite (round64 (p0 + t))"
    by (rule float_add_Finite) simp
  then show ?thesis
    using h mul by (simp add: C_lift_def t_def)
qed

lemma x_error:
  fixes px x pz z :: real
  shows "\<bar>round64 (round64 (px * x) + round64 (pz * z)) - (px * x + pz * z)\<bar>
      \<le> (\<bar>px * x\<bar> + \<bar>pz * z\<bar>) / 2 ^ 51 + 1 / 2 ^ 1073"
proof -
  define s where "s = round64 (px * x)"
  define t where "t = round64 (pz * z)"
  define \<eta> :: real where "\<eta> = 1 / 2 ^ 1075"
  define ea where "ea = \<bar>px * x\<bar> / 2 ^ 53 + \<eta>"
  define eb where "eb = \<bar>pz * z\<bar> / 2 ^ 53 + \<eta>"
  have \<eta>: "0 \<le> \<eta>" by (simp add: \<eta>_def)
  have "\<bar>s - px * x\<bar> \<le> ea" unfolding s_def ea_def using \<eta>_def by (rule prod_error)
  moreover have "\<bar>t - pz * z\<bar> \<le> eb" unfolding t_def eb_def using \<eta>_def by (rule prod_error)
  ultimately have "\<bar>round64 (s + t) - (px * x + pz * z)\<bar>
      \<le> (\<bar>px * x\<bar> + \<bar>pz * z\<bar> + ea + eb) / 2 ^ 53 + \<eta> + ea + eb"
    using \<eta>_def by (rule sum_error)
  also have "\<dots> \<le> (\<bar>px * x\<bar> + \<bar>pz * z\<bar>) / 2 ^ 51 + 4 * \<eta>"
    unfolding ea_def eb_def using \<eta> by (simp add: field_simps)
  finally show ?thesis
    unfolding s_def t_def \<eta>_def eta_multiples .
qed

lemma C_x_FiniteD:
  assumes "fst (C_x m wx wz) = Inr (Finite v)"
    and "PTxwx m = Finite px" "PTxwz m = Finite pz" "wx = Finite x" "wz = Finite z"
  shows "v = round64 (round64 (px * x) + round64 (pz * z))"
proof -
  have v: "float_add (float_mul (PTxwx m) wx) (float_mul (PTxwz m) wz) = Finite v"
    using assms(1) by (simp add: C_x_def)
  obtain s t where s: "float_mul (PTxwx m) wx = Finite s"
    and t: "float_mul (PTxwz m) wz = Finite t" and vt: "v = round64 (s + t)"
    using float_add_FiniteD [OF v] by auto
  have "s = round64 (px * x)" using float_mul_FiniteD [OF s] assms(2,4) by auto
  moreover have "t = round64 (pz * z)" using float_mul_FiniteD [OF t] assms(3,5) by auto
  ultimately show ?thesis using vt by simp
qed

lemma C_x_in_range:
  assumes h: "PTxwx m = Finite px \<and> PTxwz m = Finite pz \<and> wx = Finite x \<and> wz = Finite z \<and>
    \<bar>px * x\<bar> \<le> 2 ^ 1022 \<and> \<bar>pz * z\<bar> \<le> 2 ^ 1022"
  shows "C_x m wx wz = (Inr (Finite (round64 (round64 (px * x) + round64 (pz * z)))), m)"
proof -
  define s where "s = round64 (px * x)"
  define t where "t = round64 (pz * z)"
  have s: "\<bar>s\<bar> \<le> 2 ^ 1022" unfolding s_def using h by (intro round64_le_pow) simp
  have t: "\<bar>t\<bar> \<le> 2 ^ 1022" unfolding t_def using h by (intro round64_le_pow) simp
  have mul: "float_mul (PTxwx m) wx = Finite s" "float_mul (PTxwz m) wz = Finite t"
    unfolding s_def t_def
    using h float_mul_Finite [of px x 1022] float_mul_Finite [of pz z 1022] by simp_all
  have "\<bar>s + t\<bar> \<le> 2 ^ 1022 + 2 ^ 1022" using s t by linarith
  also have "\<dots> = (2::real) ^ 1023" by (simp only: pow_double) simp
  finally have "float_add (Finite s) (Finite t) = Finite (round64 (s + t))"
    by (rule float_add_Finite) simp
  then show ?thesis
    using mul by (simp add: C_x_def s_def t_def)
qed

lemma y_error:
  fixes p0 pw w pa a :: real
  shows "\<bar>round64 (round64 (p0 + round64 (pw * w)) + round64 (pa * a)) - (p0 + pw * w + pa * a)\<bar>
      \<le> (\<bar>p0\<bar> + \<bar>pw * w\<bar> + \<bar>pa * a\<bar>) / 2 ^ 51 + 1 / 2 ^ 1072"
proof -
  define t1 where "t1 = round64 (pw * w)"
  define s1 where "s1 = round64 (p0 + t1)"
  define t2 where "t2 = round64 (pa * a)"
  define \<eta> :: real where "\<eta> = 1 / 2 ^ 1075"
  define e1 where "e1 = \<bar>pw * w\<bar> / 2 ^ 53 + \<eta>"
  define es where "es = (\<bar>p0\<bar> + \<bar>pw * w\<bar> + 0 + e1) / 2 ^ 53 + \<eta> + 0 + e1"
  define e2 where "e2 = \<bar>pa * a\<bar> / 2 ^ 53 + \<eta>"
  have \<eta>: "0 \<le> \<eta>" by (simp add: \<eta>_def)
  have "\<bar>t1 - pw * w\<bar> \<le> e1" unfolding t1_def e1_def using \<eta>_def by (rule prod_error)
  then have "\<bar>s1 - (p0 + pw * w)\<bar> \<le> es"
    unfolding s1_def es_def using \<eta>_def by (intro sum_error) simp_all
  moreover have "\<bar>t2 - pa * a\<bar> \<le> e2" unfolding t2_def e2_def using \<eta>_def by (rule prod_error)
  ultimately have "\<bar>round64 (s1 + t2) - (p0 + pw * w + pa * a)\<bar>
      \<le> (\<bar>p0 + pw * w\<bar> + \<bar>pa * a\<bar> + es + e2) / 2 ^ 53 + \<eta> + es + e2"
    using \<eta>_def by (rule sum_error)
  also have "\<dots> \<le> (\<bar>p0\<bar> + \<bar>pw * w\<bar> + \<bar>pa * a\<bar> + es + e2) / 2 ^ 53 + \<eta> + es + e2"
    using abs_triangle_ineq [of p0 "pw * w"] by (simp add: divide_right_mono)
  also have "\<dots> \<le> (\<bar>p0\<bar> + \<bar>pw * w\<bar> + \<bar>pa * a\<bar>) / 2 ^ 51 + 8 * \<eta>"
    unfolding es_def e1_def e2_def using \<eta> by (simp add: field_simps)
  finally show ?thesis
    unfolding s1_def t1_def t2_def \<eta>_def eta_multiples .
qed

lemma C_y_FiniteD:
  assumes "fst (C_y m alpha wy) = Inr (Finite v)"
    and "PTy0 m = Finite p0" "PTywy m = Finite pw" "PTya m = Finite pa"
    and "alpha = Finite a" "wy = Finite w"
  shows "v = round64 (round64 (p0 + round64 (pw * w)) + round64 (pa * a))"
proof -
  have v: "float_add (float_add (PTy0 m) (float_mul (PTywy m) wy))
      (float_mul (PTya m) alpha) = Finite v"
    using assms(1) by (simp add: C_y_def)
  obtain s1 t2 where s1: "float_add (PTy0 m) (float_mul (PTywy m) wy) = Finite s1"
    and t2: "float_mul (PTya m) alpha = Finite t2" and vt: "v = round64 (s1 + t2)"
    using float_add_FiniteD [OF v] by auto
  obtain t1 where t1: "float_mul (PTywy m) wy = Finite t1" and st: "s1 = round64 (p0 + t1)"
    using float_add_FiniteD [OF s1] assms(2) by auto
  have "t1 = round64 (pw * w)" using float_mul_FiniteD [OF t1] assms(3,6) by auto
  moreover have "t2 = round64 (pa * a)" using float_mul_FiniteD [OF t2] assms(4,5) by auto
  ultimately show ?thesis using vt st by simp
qed

lemma C_y_in_range:
  assumes h: "PTy0 m = Finite p0 \<and> PTywy m = Finite pw \<and> PTya m = Finite pa \<and>
    alpha = Finite a \<and> wy = Finite w \<and>
    \<bar>p0\<bar> \<le> 2 ^ 1021 \<and> \<bar>pw * w\<bar> \<le> 2 ^ 1021 \<and> \<bar>pa * a\<bar> \<le> 2 ^ 1022"
  shows "C_y m alpha wy =
      (Inr (Finite (round64 (round64 (p0 + round64 (pw * w)) + round64 (pa * a)))), m)"
proof -
  define t1 where "t1 = round64 (pw * w)"
  define s1 where "s1 = round64 (p0 + t1)"
  define t2 where "t2 = round64 (pa * a)"
  have t1: "\<bar>t1\<bar> \<le> 2 ^ 1021" unfolding t1_def using h by (intro round64_le_pow) simp
  have t2: "\<bar>t2\<bar> \<le> 2 ^ 1022" unfolding t2_def using h by (intro round64_le_pow) simp
  have mul: "float_mul (PTywy m) wy = Finite t1" "float_mul (PTya m) alpha = Finite t2"
    unfolding t1_def t2_def
    using h float_mul_Finite [of pw w 1021] float_mul_Finite [of pa a 1022] by simp_all
  have "\<bar>p0 + t1\<bar> \<le> 2 ^ 1021 + 2 ^ 1021" using h t1 by linarith
  also have "\<dots> = (2::real) ^ 1022" by (simp only: pow_double) simp
  finally have p0t1: "\<bar>p0 + t1\<bar> \<le> 2 ^ 1022" .
  then have add1: "float_add (Finite p0) (Finite t1) = Finite s1"
    unfolding s1_def by (rule float_add_Finite) simp
  have s1: "\<bar>s1\<bar> \<le> 2 ^ 1022" unfolding s1_def using p0t1 by (rule round64_le_pow)
  have "\<bar>s1 + t2\<bar> \<le> 2 ^ 1022 + 2 ^ 1022" using s1 t2 by linarith
  also have "\<dots> = (2::real) ^ 1023" by (simp only: pow_double) simp
  finally have "float_add (Finite s1) (Finite t2) = Finite (round64 (s1 + t2))"
    by (rule float_add_Finite) simp
  then show ?thesis
    using h mul add1 by (simp add: C_y_def s1_def t1_def t2_def)
qed

subsection \<open>Representable numbers and the default fields\<close>

text \<open>
  The rounding function reproduces the binary64 values of the defaults: \<^verbatim>\<open>0.18\<close> is
  \<open>3242591731706757 / 2\<^sup>5\<^sup>4\<close>, and \<^verbatim>\<open>4 * np.pi / 180\<close> is \<open>5030569068109113 / 2\<^sup>5\<^sup>6\<close>, whose
  hexadecimal form is \<^verbatim>\<open>0x1.1df46a2529d39p-4\<close>.
\<close>

lemma round_half_even_below:
  "of_int n \<le> q \<Longrightarrow> q < of_int n + 1 / 2 \<Longrightarrow> round_half_even q = n"
proof -
  assume a: "of_int n \<le> q" "q < of_int n + 1 / 2"
  then have "\<lfloor>q\<rfloor> = n" by (simp add: floor_eq_iff)
  then show ?thesis using a by (simp add: round_half_even_def Let_def)
qed

lemma round64_of_int: "\<bar>n\<bar> < 2 ^ 53 \<Longrightarrow> round64 (of_int n) = of_int n"
  using round64_representable [of n 0] by simp

lemma round64_inverse_pow: "n \<le> 1074 \<Longrightarrow> round64 (1 / 2 ^ n) = 1 / 2 ^ n"
  using round64_representable [of 1 "- int n"] by (simp add: powr_minus_divide powr_realpow)

lemma round64_pow: "round64 (2 ^ n) = 2 ^ n"
  using round64_representable [of 1 "int n"] by (simp add: powr_realpow)

lemma fields_Model:
  "PD0 (init Model) = Finite (3242591731706757 / 2 ^ 54)"
  "alpha_0 (init Model) = Finite (5030569068109113 / 2 ^ 56)"
proof -
  have "round_half_even (18 / 100 * 2 ^ 55) = 6485183463413514"
    by (rule round_half_even_below) simp_all
  then have "round64 (18 / 100) = of_int 6485183463413514 * 2 powr of_int (- 3 - 52)"
    by (intro round64_eval) (simp_all add: powr_minus_divide)
  then have "round64 (18 / 100) = 3242591731706757 / 2 ^ 54"
    by (simp add: powr_minus_divide)
  moreover have "to_float (18 / 100) = Finite (round64 (18 / 100))"
    by (rule to_float_Finite [of _ 0]) simp_all
  ultimately show "PD0 (init Model) = Finite (3242591731706757 / 2 ^ 54)"
    by (simp add: Model_fields_def)
  have "round_half_even ((4 * np_pi / 180) * 2 ^ 56) = 5030569068109112 + 1"
    by (rule round_half_even_above) (simp_all add: np_pi_def)
  then have "round64 (4 * np_pi / 180) = of_int 5030569068109113 * 2 powr of_int (- 4 - 52)"
    by (intro round64_eval) (simp_all add: powr_minus_divide np_pi_def)
  then have "round64 (4 * np_pi / 180) = 5030569068109113 / 2 ^ 56"
    by (simp add: powr_minus_divide)
  moreover have "to_float (4 * np_pi / 180) = Finite (round64 (4 * np_pi / 180))"
    by (rule to_float_Finite [of _ 0]) (simp_all add: np_pi_def)
  ultimately show "alpha_0 (init Model) = Finite (5030569068109113 / 2 ^ 56)"
    by (simp add: Model_fields_def)
qed

lemma PTzwz_Model:
  "PTzwz (init Model) = Finite (round64 (- 0.000034))"
  "- (1 / 2 ^ 14) \<le> round64 (- 0.000034)" "round64 (- 0.000034) \<le> - (1 / 2 ^ 15)"
proof -
  have le: "\<bar>round64 (- 0.000034)\<bar> \<le> 2 powr of_int (- 14)"
    by (rule round64_abs_le) (simp_all add: powr_minus_divide)
  have ge: "2 powr of_int (- 15) \<le> \<bar>round64 (- 0.000034)\<bar>"
    by (rule round64_abs_ge) (simp_all add: powr_minus_divide)
  have neg: "round64 (- 0.000034) \<le> 0" by (rule round64_nonpos) simp
  show "- (1 / 2 ^ 14) \<le> round64 (- 0.000034)" "round64 (- 0.000034) \<le> - (1 / 2 ^ 15)"
    using le ge neg by (simp_all add: powr_minus_divide)
  have "to_float (- 0.000034) = Finite (round64 (- 0.000034))"
    by (rule to_float_Finite [of _ 0]) simp_all
  then show "PTzwz (init Model) = Finite (round64 (- 0.000034))"
    by (simp add: Model_fields_def)
qed

subsection \<open>The square of a negated float\<close>

lemma float_pow2_to_float_minus: "float_pow2 (to_float (- x)) = float_pow2 (to_float x)"
  by (simp add: to_float_def Let_def round64_minus)

lemma round64_dyadic:
  assumes "x = of_int n / 2 ^ k" "\<bar>n\<bar> < 2 ^ 53" "k \<le> 1074"
  shows "round64 x = x"
  unfolding assms(1) using round64_representable [of n "- int k"] assms(2,3)
  by (simp add: powr_minus_divide powr_realpow)

lemma to_float_dyadic:
  assumes "x = of_int n / 2 ^ k" "\<bar>n\<bar> < 2 ^ 53" "k \<le> 1074"
  shows "to_float x = Finite x"
proof -
  have "(of_int \<bar>n\<bar> :: real) \<le> of_int (2 ^ 53)" using assms(2) by (simp only: of_int_le_iff)
  moreover have "\<bar>x\<bar> \<le> of_int \<bar>n\<bar>"
    unfolding assms(1) by (simp add: field_simps mult_le_cancel_left1)
  ultimately have "\<bar>x\<bar> \<le> 2 ^ 53" by simp
  then have "\<bar>x\<bar> \<le> 2 ^ 1023" by (rule order_trans) simp
  then show ?thesis using assms by (intro to_float_representable round64_dyadic)
qed

lemma round64_one_plus_half_ulp: "round64 (1 + 1 / 2 ^ 53) = 1"
proof -
  have "round_half_even (of_int (2 ^ 52) + 1 / 2) = 2 ^ 52"
    by (simp only: round_half_even_tie) simp
  then have "round_half_even ((1 + 1 / 2 ^ 53) / 2 powr of_int (0 - 52)) = 2 ^ 52"
    by (simp add: powr_minus_divide field_simps)
  then have "round64 (1 + 1 / 2 ^ 53) = of_int (2 ^ 52) * 2 powr of_int (0 - 52)"
    by (intro round64_eval) simp_all
  then show ?thesis by (simp add: powr_minus_divide)
qed

subsection \<open>The error of the drag formula\<close>





subsection \<open>The drag coefficient on finite operands\<close>



subsection \<open>The drag coefficient against its constant term\<close>








subsection \<open>Evaluation at concrete inputs\<close>

lemma to_float_int: "x = of_int n \<Longrightarrow> \<bar>n\<bar> < 2 ^ 53 \<Longrightarrow> to_float x = Finite x"
  by (rule to_float_dyadic [where n = n and k = 0]) simp_all

lemma half_ulp:
  fixes h :: real
  assumes "h = 1 / 2 ^ 53"
  shows "to_float h = Finite h" "to_float (1 + h) = Finite 1" "to_float (3 - h) = Finite 3"
proof -
  show "to_float h = Finite h"
    by (rule to_float_dyadic [where n = 1 and k = 53]) (simp_all add: assms)
  have "to_float (1 + h) = Finite (round64 (1 + h))"
    by (rule to_float_Finite [of _ 1]) (simp_all add: assms)
  then show "to_float (1 + h) = Finite 1"
    unfolding assms by (simp only: round64_one_plus_half_ulp)
  have "round_half_even ((3 - h) / 2 powr of_int (1 - 52)) = (3 * 2 ^ 51 - 1) + 1"
    by (rule round_half_even_above) (simp_all add: assms powr_minus_divide)
  then have "round64 (3 - h) = of_int ((3 * 2 ^ 51 - 1) + 1) * 2 powr of_int (1 - 52)"
    by (intro round64_eval) (simp_all add: assms)
  then have "round64 (3 - h) = 3" by (simp add: powr_minus_divide)
  moreover have "to_float (3 - h) = Finite (round64 (3 - h))"
    by (rule to_float_Finite [of _ 2]) (simp_all add: assms)
  ultimately show "to_float (3 - h) = Finite 3" by simp
qed

lemma small_ints:
  "to_float 1 = Finite 1" "to_float (- 1) = Finite (- 1)" "to_float 2 = Finite 2"
  "to_float 3 = Finite 3" "to_float 6 = Finite 6" "to_float 7 = Finite 7" "to_float 9 = Finite 9"
  by (rule to_float_int [where n = 1], simp, simp)
     (rule to_float_int [where n = "- 1"], simp, simp,
      rule to_float_int [where n = 2], simp, simp,
      rule to_float_int [where n = 3], simp, simp,
      rule to_float_int [where n = 6], simp, simp,
      rule to_float_int [where n = 7], simp, simp,
      rule to_float_int [where n = 9], simp, simp)


lemma C_drag_raises:
  assumes "alpha = Finite a" "alpha_0 m = Finite a0"
    and "2 ^ 512 \<le> \<bar>a - a0\<bar>" "\<bar>a - a0\<bar> \<le> 2 ^ 1023"
  shows "fst (C_drag m alpha) = Inl OverflowError"
proof -
  have d: "float_sub alpha (alpha_0 m) = Finite (round64 (a - a0))"
    using assms to_float_Finite [of "a - a0" 1023] by simp
  have "2 ^ 512 \<le> \<bar>round64 (a - a0)\<bar>" using assms(3) by (rule round64_ge_pow)
  then have "float_pow2 (Finite (round64 (a - a0))) = Inl OverflowError"
    by (rule float_pow2_overflow)
  then show ?thesis unfolding C_drag_def d by simp
qed

lemma small_rounds:
  "round64 1 = 1" "round64 2 = 2" "round64 3 = 3" "round64 5 = 5" "round64 6 = 6"
  "round64 7 = 7"
  using round64_of_int [of 1] round64_of_int [of 2] round64_of_int [of 3]
    round64_of_int [of 5] round64_of_int [of 6] round64_of_int [of 7]
  by simp_all


subsection \<open>When the drag coefficient returns\<close>

lemma C_drag_returns:
  assumes "alpha = Finite a" "alpha_0 m = Finite a0" "\<bar>a - a0\<bar> \<le> 2 ^ 511"
  shows "\<exists>v. fst (C_drag m alpha) = Inr v"
proof -
  have d: "float_sub alpha (alpha_0 m) = Finite (round64 (a - a0))"
    using assms to_float_Finite [of "a - a0" 511] by simp
  have "\<bar>round64 (a - a0)\<bar> \<le> 2 ^ 511" using assms(3) by (rule round64_le_pow)
  then have "float_pow2 (Finite (round64 (a - a0))) =
      Inr (Finite (round64 (round64 (a - a0) * round64 (a - a0))))"
    by (rule float_pow2_in_range)
  then show ?thesis unfolding C_drag_def d by simp
qed

lemma Jankie_floats: "to_float 999 = Finite 999" "to_float 1998 = Finite 1998"
  by (rule to_float_int [where n = 999], simp, simp)
     (rule to_float_int [where n = 1998], simp, simp)

section \<open>Values of the coefficient functions\<close>







text \<open>
  C3, as the code has it. \<open>C_lift\<close> does not return the real number
  \<open>PL0 + PLa\<cdot>alpha\<close>: the product and the sum are each rounded to binary64. For every
  model instance with finite \<open>PL0\<close> and \<open>PLa\<close> and every finite \<open>alpha\<close>:
  \<^item> a finite value \<open>v\<close> returned by \<open>C_lift\<close> is \<open>fl(PL0 + fl(PLa\<cdot>alpha))\<close>, and it
    differs from \<open>PL0 + PLa\<cdot>alpha\<close> by at most \<open>(\<bar>PL0\<bar> + \<bar>PLa\<cdot>alpha\<bar>) / 2\<^sup>5\<^sup>1 + 1 / 2\<^sup>1\<^sup>0\<^sup>7\<^sup>3\<close>;
  \<^item> when \<open>\<bar>PL0\<bar> \<le> 2\<^sup>1\<^sup>0\<^sup>2\<^sup>2\<close> and \<open>\<bar>PLa\<cdot>alpha\<bar> \<le> 2\<^sup>1\<^sup>0\<^sup>2\<^sup>2\<close>, \<open>C_lift\<close> returns that finite value
    and leaves the instance as it was;
  \<^item> the intercept is exact: when \<open>PL0\<close> is a finite binary64 number, \<open>C_lift(0)\<close>
    returns \<open>PL0\<close>.
\<close>

theorem C_lift_value:
  "(PL0 m = Finite p0 \<and> PLa m = Finite pa \<and> alpha = Finite a \<and>
    fst (C_lift m alpha) = Inr (Finite v) \<longrightarrow>
      v = round64 (p0 + round64 (pa * a)) \<and>
      \<bar>v - (p0 + pa * a)\<bar> \<le> (\<bar>p0\<bar> + \<bar>pa * a\<bar>) / 2 ^ 51 + 1 / 2 ^ 1073) \<and>
   (PL0 m = Finite p0 \<and> PLa m = Finite pa \<and> alpha = Finite a \<and>
    \<bar>p0\<bar> \<le> 2 ^ 1022 \<and> \<bar>pa * a\<bar> \<le> 2 ^ 1022 \<longrightarrow>
      C_lift m alpha = (Inr (Finite (round64 (p0 + round64 (pa * a)))), m)) \<and>
   (PL0 m = Finite p0 \<and> PLa m = Finite pa \<and> round64 p0 = p0 \<and> \<bar>p0\<bar> \<le> DBL_MAX \<longrightarrow>
      C_lift m (Finite 0) = (Inr (Finite p0), m))"
proof (intro conjI impI)
  assume h: "PL0 m = Finite p0 \<and> PLa m = Finite pa \<and> alpha = Finite a \<and>
    fst (C_lift m alpha) = Inr (Finite v)"
  then show v: "v = round64 (p0 + round64 (pa * a))"
    using C_lift_FiniteD [of m alpha v p0 pa a] by blast
  show "\<bar>v - (p0 + pa * a)\<bar> \<le> (\<bar>p0\<bar> + \<bar>pa * a\<bar>) / 2 ^ 51 + 1 / 2 ^ 1073"
    unfolding v by (rule lift_error)
next
  assume "PL0 m = Finite p0 \<and> PLa m = Finite pa \<and> alpha = Finite a \<and>
    \<bar>p0\<bar> \<le> 2 ^ 1022 \<and> \<bar>pa * a\<bar> \<le> 2 ^ 1022"
  then show "C_lift m alpha = (Inr (Finite (round64 (p0 + round64 (pa * a)))), m)"
    by (rule C_lift_in_range)
next
  assume h: "PL0 m = Finite p0 \<and> PLa m = Finite pa \<and> round64 p0 = p0 \<and> \<bar>p0\<bar> \<le> DBL_MAX"
  then have "to_float p0 = Finite p0" by (intro to_float_binary64) simp_all
  then show "C_lift m (Finite 0) = (Inr (Finite p0), m)"
    using h by (simp add: C_lift_def to_float_zero)
qed

text \<open>
  On \<^verbatim>\<open>Model(PL0=1.0, PLa=2.0)\<close>, \<^verbatim>\<open>C_lift(3.0)\<close> returns \<open>7\<close> and \<^verbatim>\<open>C_lift(0.0)\<close>
  returns \<open>1\<close>.
\<close>

theorem C_lift_value_witness:
  "C_lift ((init Model)\<lparr>PL0 := Finite 1, PLa := Finite 2\<rparr>) (Finite 3)
     = (Inr (Finite 7), (init Model)\<lparr>PL0 := Finite 1, PLa := Finite 2\<rparr>) \<and>
   C_lift ((init Model)\<lparr>PL0 := Finite 1, PLa := Finite 2\<rparr>) (Finite 0)
     = (Inr (Finite 1), (init Model)\<lparr>PL0 := Finite 1, PLa := Finite 2\<rparr>)"
  using C_lift_value [where m = "(init Model)\<lparr>PL0 := Finite 1, PLa := Finite 2\<rparr>"
      and ?p0.0 = 1 and pa = 2 and alpha = "Finite 3" and a = 3 and v = 7] small_rounds
  by (simp add: DBL_MAX_def)

text \<open>
  C3, as stated, fails: on \<^verbatim>\<open>Model(PL0=1.0, PLa=1.0)\<close> the call
  \<^verbatim>\<open>C_lift(2.0 ** -53)\<close> returns \<open>1\<close>, which is not \<open>1 + 1\<cdot>2\<^sup>-\<^sup>5\<^sup>3\<close>.
\<close>

theorem C_lift_value_counterexample:
  "fst (C_lift ((init Model)\<lparr>PL0 := Finite 1, PLa := Finite 1\<rparr>) (Finite (1 / 2 ^ 53)))
     = Inr (Finite 1) \<and>
   (1::real) \<noteq> 1 + 1 * (1 / 2 ^ 53)"
proof -
  define h :: real where "h = 1 / 2 ^ 53"
  have "fst (C_lift ((init Model)\<lparr>PL0 := Finite 1, PLa := Finite 1\<rparr>) (Finite h))
     = Inr (Finite 1)"
    using half_ulp(1,2) [OF h_def] by (simp add: C_lift_def)
  then show ?thesis by (simp add: h_def)
qed

text \<open>
  C4, as the code has it. \<open>C_y\<close> does not return the real number
  \<open>PTy0 + PTywy\<cdot>wy + PTya\<cdot>alpha\<close>: the two products and the two sums are each rounded
  to binary64, the sums from left to right. For every model instance with finite
  \<open>PTy0\<close>, \<open>PTywy\<close>, \<open>PTya\<close> and all finite \<open>alpha\<close> and \<open>wy\<close>:
  \<^item> a finite value \<open>v\<close> returned by \<open>C_y\<close> is
    \<open>fl(fl(PTy0 + fl(PTywy\<cdot>wy)) + fl(PTya\<cdot>alpha))\<close>, and it differs from
    \<open>PTy0 + PTywy\<cdot>wy + PTya\<cdot>alpha\<close> by at most
    \<open>(\<bar>PTy0\<bar> + \<bar>PTywy\<cdot>wy\<bar> + \<bar>PTya\<cdot>alpha\<bar>) / 2\<^sup>5\<^sup>1 + 1 / 2\<^sup>1\<^sup>0\<^sup>7\<^sup>2\<close>;
  \<^item> when \<open>\<bar>PTy0\<bar> \<le> 2\<^sup>1\<^sup>0\<^sup>2\<^sup>1\<close>, \<open>\<bar>PTywy\<cdot>wy\<bar> \<le> 2\<^sup>1\<^sup>0\<^sup>2\<^sup>1\<close> and \<open>\<bar>PTya\<cdot>alpha\<bar> \<le> 2\<^sup>1\<^sup>0\<^sup>2\<^sup>2\<close>, \<open>C_y\<close>
    returns that finite value and leaves the instance as it was;
  \<^item> the intercept is exact: when \<open>PTy0\<close> is a finite binary64 number, \<open>C_y(0, 0)\<close>
    returns \<open>PTy0\<close>.
\<close>

theorem C_y_value:
  "(PTy0 m = Finite p0 \<and> PTywy m = Finite pw \<and> PTya m = Finite pa \<and>
    alpha = Finite a \<and> wy = Finite w \<and> fst (C_y m alpha wy) = Inr (Finite v) \<longrightarrow>
      v = round64 (round64 (p0 + round64 (pw * w)) + round64 (pa * a)) \<and>
      \<bar>v - (p0 + pw * w + pa * a)\<bar>
        \<le> (\<bar>p0\<bar> + \<bar>pw * w\<bar> + \<bar>pa * a\<bar>) / 2 ^ 51 + 1 / 2 ^ 1072) \<and>
   (PTy0 m = Finite p0 \<and> PTywy m = Finite pw \<and> PTya m = Finite pa \<and>
    alpha = Finite a \<and> wy = Finite w \<and>
    \<bar>p0\<bar> \<le> 2 ^ 1021 \<and> \<bar>pw * w\<bar> \<le> 2 ^ 1021 \<and> \<bar>pa * a\<bar> \<le> 2 ^ 1022 \<longrightarrow>
      C_y m alpha wy =
        (Inr (Finite (round64 (round64 (p0 + round64 (pw * w)) + round64 (pa * a)))), m)) \<and>
   (PTy0 m = Finite p0 \<and> PTywy m = Finite pw \<and> PTya m = Finite pa \<and>
    round64 p0 = p0 \<and> \<bar>p0\<bar> \<le> DBL_MAX \<longrightarrow>
      C_y m (Finite 0) (Finite 0) = (Inr (Finite p0), m))"
proof (intro conjI impI)
  assume h: "PTy0 m = Finite p0 \<and> PTywy m = Finite pw \<and> PTya m = Finite pa \<and>
    alpha = Finite a \<and> wy = Finite w \<and> fst (C_y m alpha wy) = Inr (Finite v)"
  then show v: "v = round64 (round64 (p0 + round64 (pw * w)) + round64 (pa * a))"
    using C_y_FiniteD [of m alpha wy v p0 pw pa a w] by blast
  show "\<bar>v - (p0 + pw * w + pa * a)\<bar>
      \<le> (\<bar>p0\<bar> + \<bar>pw * w\<bar> + \<bar>pa * a\<bar>) / 2 ^ 51 + 1 / 2 ^ 1072"
    unfolding v by (rule y_error)
next
  assume "PTy0 m = Finite p0 \<and> PTywy m = Finite pw \<and> PTya m = Finite pa \<and>
    alpha = Finite a \<and> wy = Finite w \<and>
    \<bar>p0\<bar> \<le> 2 ^ 1021 \<and> \<bar>pw * w\<bar> \<le> 2 ^ 1021 \<and> \<bar>pa * a\<bar> \<le> 2 ^ 1022"
  then show "C_y m alpha wy =
      (Inr (Finite (round64 (round64 (p0 + round64 (pw * w)) + round64 (pa * a)))), m)"
    by (rule C_y_in_range)
next
  assume h: "PTy0 m = Finite p0 \<and> PTywy m = Finite pw \<and> PTya m = Finite pa \<and>
    round64 p0 = p0 \<and> \<bar>p0\<bar> \<le> DBL_MAX"
  then have "to_float p0 = Finite p0" by (intro to_float_binary64) simp_all
  then show "C_y m (Finite 0) (Finite 0) = (Inr (Finite p0), m)"
    using h by (simp add: C_y_def to_float_zero)
qed

text \<open>
  On \<^verbatim>\<open>Model(PTy0=1.0, PTywy=2.0, PTya=3.0)\<close>, \<^verbatim>\<open>C_y(1.0, 1.0)\<close> returns \<open>6\<close> and
  \<^verbatim>\<open>C_y(0.0, 0.0)\<close> returns \<open>1\<close>.
\<close>

theorem C_y_value_witness:
  "C_y ((init Model)\<lparr>PTy0 := Finite 1, PTya := Finite 3, PTywy := Finite 2\<rparr>)
       (Finite 1) (Finite 1)
     = (Inr (Finite 6), (init Model)\<lparr>PTy0 := Finite 1, PTya := Finite 3, PTywy := Finite 2\<rparr>) \<and>
   C_y ((init Model)\<lparr>PTy0 := Finite 1, PTya := Finite 3, PTywy := Finite 2\<rparr>)
       (Finite 0) (Finite 0)
     = (Inr (Finite 1), (init Model)\<lparr>PTy0 := Finite 1, PTya := Finite 3, PTywy := Finite 2\<rparr>)"
  using C_y_value
    [where m = "(init Model)\<lparr>PTy0 := Finite 1, PTya := Finite 3, PTywy := Finite 2\<rparr>"
      and ?p0.0 = 1 and pw = 2 and pa = 3 and alpha = "Finite 1" and a = 1
      and wy = "Finite 1" and w = 1 and v = 6] small_rounds
  by (simp add: DBL_MAX_def)

text \<open>
  C4, as stated, fails: on \<^verbatim>\<open>Model(PTy0=1.0, PTywy=1.0, PTya=1.0)\<close> the call
  \<^verbatim>\<open>C_y(2.0 ** -53, 0.0)\<close> returns \<open>1\<close>, which is not \<open>1 + 1\<cdot>0 + 1\<cdot>2\<^sup>-\<^sup>5\<^sup>3\<close>.
\<close>

theorem C_y_value_counterexample:
  "fst (C_y ((init Model)\<lparr>PTy0 := Finite 1, PTya := Finite 1, PTywy := Finite 1\<rparr>)
         (Finite (1 / 2 ^ 53)) (Finite 0)) = Inr (Finite 1) \<and>
   (1::real) \<noteq> 1 + 1 * 0 + 1 * (1 / 2 ^ 53)"
proof -
  define h :: real where "h = 1 / 2 ^ 53"
  have "fst (C_y ((init Model)\<lparr>PTy0 := Finite 1, PTya := Finite 1, PTywy := Finite 1\<rparr>)
         (Finite h) (Finite 0)) = Inr (Finite 1)"
    using half_ulp(1,2) [OF h_def] by (simp add: C_y_def to_float_zero small_ints)
  then show ?thesis by (simp add: h_def)
qed

text \<open>
  C5, as the code has it. \<open>C_x\<close> does not return the real number
  \<open>PTxwx\<cdot>wx + PTxwz\<cdot>wz\<close>: the two products and the sum are each rounded to binary64.
  For every model instance with finite \<open>PTxwx\<close> and \<open>PTxwz\<close> and all finite \<open>wx\<close>
  and \<open>wz\<close>:
  \<^item> a finite value \<open>v\<close> returned by \<open>C_x\<close> is \<open>fl(fl(PTxwx\<cdot>wx) + fl(PTxwz\<cdot>wz))\<close>, and
    it differs from \<open>PTxwx\<cdot>wx + PTxwz\<cdot>wz\<close> by at most
    \<open>(\<bar>PTxwx\<cdot>wx\<bar> + \<bar>PTxwz\<cdot>wz\<bar>) / 2\<^sup>5\<^sup>1 + 1 / 2\<^sup>1\<^sup>0\<^sup>7\<^sup>3\<close>;
  \<^item> when \<open>\<bar>PTxwx\<cdot>wx\<bar> \<le> 2\<^sup>1\<^sup>0\<^sup>2\<^sup>2\<close> and \<open>\<bar>PTxwz\<cdot>wz\<bar> \<le> 2\<^sup>1\<^sup>0\<^sup>2\<^sup>2\<close>, \<open>C_x\<close> returns that finite
    value and leaves the instance as it was;
  \<^item> there is no intercept: \<open>C_x(0, 0)\<close> returns \<open>0\<close>.
\<close>

theorem C_x_value:
  "(PTxwx m = Finite px \<and> PTxwz m = Finite pz \<and> wx = Finite x \<and> wz = Finite z \<and>
    fst (C_x m wx wz) = Inr (Finite v) \<longrightarrow>
      v = round64 (round64 (px * x) + round64 (pz * z)) \<and>
      \<bar>v - (px * x + pz * z)\<bar> \<le> (\<bar>px * x\<bar> + \<bar>pz * z\<bar>) / 2 ^ 51 + 1 / 2 ^ 1073) \<and>
   (PTxwx m = Finite px \<and> PTxwz m = Finite pz \<and> wx = Finite x \<and> wz = Finite z \<and>
    \<bar>px * x\<bar> \<le> 2 ^ 1022 \<and> \<bar>pz * z\<bar> \<le> 2 ^ 1022 \<longrightarrow>
      C_x m wx wz = (Inr (Finite (round64 (round64 (px * x) + round64 (pz * z)))), m)) \<and>
   (PTxwx m = Finite px \<and> PTxwz m = Finite pz \<longrightarrow>
      C_x m (Finite 0) (Finite 0) = (Inr (Finite 0), m))"
proof (intro conjI impI)
  assume h: "PTxwx m = Finite px \<and> PTxwz m = Finite pz \<and> wx = Finite x \<and> wz = Finite z \<and>
    fst (C_x m wx wz) = Inr (Finite v)"
  then show v: "v = round64 (round64 (px * x) + round64 (pz * z))"
    using C_x_FiniteD [of m wx wz v px pz x z] by blast
  show "\<bar>v - (px * x + pz * z)\<bar> \<le> (\<bar>px * x\<bar> + \<bar>pz * z\<bar>) / 2 ^ 51 + 1 / 2 ^ 1073"
    unfolding v by (rule x_error)
next
  assume "PTxwx m = Finite px \<and> PTxwz m = Finite pz \<and> wx = Finite x \<and> wz = Finite z \<and>
    \<bar>px * x\<bar> \<le> 2 ^ 1022 \<and> \<bar>pz * z\<bar> \<le> 2 ^ 1022"
  then show "C_x m wx wz = (Inr (Finite (round64 (round64 (px * x) + round64 (pz * z)))), m)"
    by (rule C_x_in_range)
next
  assume "PTxwx m = Finite px \<and> PTxwz m = Finite pz"
  then show "C_x m (Finite 0) (Finite 0) = (Inr (Finite 0), m)"
    by (simp add: C_x_def to_float_zero)
qed

text \<open>
  On \<^verbatim>\<open>Model(PTxwx=2.0, PTxwz=3.0)\<close>, \<^verbatim>\<open>C_x(1.0, 1.0)\<close> returns \<open>5\<close> and
  \<^verbatim>\<open>C_x(0.0, 0.0)\<close> returns \<open>0\<close>.
\<close>

theorem C_x_value_witness:
  "C_x ((init Model)\<lparr>PTxwx := Finite 2, PTxwz := Finite 3\<rparr>) (Finite 1) (Finite 1)
     = (Inr (Finite 5), (init Model)\<lparr>PTxwx := Finite 2, PTxwz := Finite 3\<rparr>) \<and>
   C_x ((init Model)\<lparr>PTxwx := Finite 2, PTxwz := Finite 3\<rparr>) (Finite 0) (Finite 0)
     = (Inr (Finite 0), (init Model)\<lparr>PTxwx := Finite 2, PTxwz := Finite 3\<rparr>)"
  using C_x_value
    [where m = "(init Model)\<lparr>PTxwx := Finite 2, PTxwz := Finite 3\<rparr>"
      and px = 2 and pz = 3 and wx = "Finite 1" and x = 1 and wz = "Finite 1" and z = 1
      and v = 5]
    small_rounds
  by simp

text \<open>
  C5, as stated, fails: on \<^verbatim>\<open>Model(PTxwx=1.0, PTxwz=1.0)\<close> the call
  \<^verbatim>\<open>C_x(1.0, 2.0 ** -53)\<close> returns \<open>1\<close>, which is not \<open>1\<cdot>1 + 1\<cdot>2\<^sup>-\<^sup>5\<^sup>3\<close>.
\<close>

theorem C_x_value_counterexample:
  "fst (C_x ((init Model)\<lparr>PTxwx := Finite 1, PTxwz := Finite 1\<rparr>)
         (Finite 1) (Finite (1 / 2 ^ 53))) = Inr (Finite 1) \<and>
   (1::real) \<noteq> 1 * 1 + 1 * (1 / 2 ^ 53)"
proof -
  define h :: real where "h = 1 / 2 ^ 53"
  have "fst (C_x ((init Model)\<lparr>PTxwx := Finite 1, PTxwz := Finite 1\<rparr>)
         (Finite 1) (Finite h)) = Inr (Finite 1)"
    using half_ulp(1,2) [OF h_def] by (simp add: C_x_def small_ints)
  then show ?thesis by (simp add: h_def)
qed

text \<open>
  C6, as the code has it. \<open>C_z\<close> returns the product \<open>PTzwz\<cdot>wz\<close> rounded to binary64,
  not the real product, and a small product underflows to zero.
  \<^item> For every model instance with finite \<open>PTzwz\<close> and every finite \<open>wz\<close>, a finite
    value \<open>v\<close> returned by \<open>C_z\<close> is \<open>fl(PTzwz\<cdot>wz)\<close>, and it differs from \<open>PTzwz\<cdot>wz\<close>
    by at most \<open>\<bar>PTzwz\<cdot>wz\<bar> / 2\<^sup>5\<^sup>3 + 1 / 2\<^sup>1\<^sup>0\<^sup>7\<^sup>5\<close>.
  \<^item> When \<open>\<bar>PTzwz\<cdot>wz\<bar> \<le> 2\<^sup>1\<^sup>0\<^sup>2\<^sup>3\<close>, \<open>C_z\<close> returns that finite value and leaves the
    instance as it was.
  \<^item> \<open>C_z(0)\<close> returns \<open>0\<close>.
  \<^item> The default \<open>PTzwz\<close> is the float \<^verbatim>\<open>-0.000034\<close>, a small negative number between
    \<open>-2\<^sup>-\<^sup>1\<^sup>4\<close> and \<open>-2\<^sup>-\<^sup>1\<^sup>5\<close>.
  \<^item> On \<^verbatim>\<open>Model()\<close>, for every finite float \<open>wz\<close>, that is, \<open>\<bar>wz\<bar>\<close> at most the largest
    finite binary64 number, \<open>C_z(wz)\<close> returns a finite value that never has the sign
    of \<open>wz\<close>, and that has the opposite sign whenever \<open>2\<^sup>-\<^sup>1\<^sup>0\<^sup>0\<^sup>7 \<le> \<bar>wz\<bar>\<close>.
\<close>

theorem C_z_value:
  "(PTzwz m = Finite pz \<and> wz = Finite w \<and> fst (C_z m wz) = Inr (Finite v) \<longrightarrow>
      v = round64 (pz * w) \<and> \<bar>v - pz * w\<bar> \<le> \<bar>pz * w\<bar> / 2 ^ 53 + 1 / 2 ^ 1075) \<and>
   (PTzwz m = Finite pz \<and> wz = Finite w \<and> \<bar>pz * w\<bar> \<le> 2 ^ 1023 \<longrightarrow>
      C_z m wz = (Inr (Finite (round64 (pz * w))), m)) \<and>
   (PTzwz m = Finite pz \<longrightarrow> C_z m (Finite 0) = (Inr (Finite 0), m)) \<and>
   PTzwz (init Model) = Finite (round64 (- 0.000034)) \<and>
   - (1 / 2 ^ 14) \<le> round64 (- 0.000034) \<and> round64 (- 0.000034) \<le> - (1 / 2 ^ 15) \<and>
   (\<bar>w\<bar> \<le> DBL_MAX \<longrightarrow>
      (\<exists>v. C_z (init Model) (Finite w) = (Inr (Finite v), init Model) \<and> v * w \<le> 0 \<and>
           (1 / 2 ^ 1007 \<le> \<bar>w\<bar> \<longrightarrow> v * w < 0)))"
proof (intro conjI impI)
  assume h: "PTzwz m = Finite pz \<and> wz = Finite w \<and> fst (C_z m wz) = Inr (Finite v)"
  then have "fst (C_z m wz) = Inr (Finite v)" by blast
  then have "float_mul (PTzwz m) wz = Finite v" by (simp add: C_z_def)
  then show v: "v = round64 (pz * w)" using float_mul_FiniteD [of "PTzwz m" wz v] h by auto
  show "\<bar>v - pz * w\<bar> \<le> \<bar>pz * w\<bar> / 2 ^ 53 + 1 / 2 ^ 1075"
    unfolding v by (rule round64_error)
next
  assume h: "PTzwz m = Finite pz \<and> wz = Finite w \<and> \<bar>pz * w\<bar> \<le> 2 ^ 1023"
  then show "C_z m wz = (Inr (Finite (round64 (pz * w))), m)"
    using float_mul_Finite [of pz w 1023] by (simp add: C_z_def)
next
  assume "PTzwz m = Finite pz"
  then show "C_z m (Finite 0) = (Inr (Finite 0), m)"
    by (simp add: C_z_def to_float_zero)
next
  show "PTzwz (init Model) = Finite (round64 (- 0.000034))"
    "- (1 / 2 ^ 14) \<le> round64 (- 0.000034)" "round64 (- 0.000034) \<le> - (1 / 2 ^ 15)"
    by (rule PTzwz_Model)+
next
  assume "\<bar>w\<bar> \<le> DBL_MAX"
  then have w: "\<bar>w\<bar> \<le> 2 ^ 1024" using DBL_MAX_bounds(2) by linarith
  define pz where "pz = round64 (- 0.000034)"
  define v where "v = round64 (pz * w)"
  have pz: "- (1 / 2 ^ 14) \<le> pz" "pz \<le> - (1 / 2 ^ 15)"
    unfolding pz_def by (rule PTzwz_Model)+
  have "\<bar>pz\<bar> \<le> 1 / 2" using pz by (simp add: abs_if)
  then have "\<bar>pz\<bar> * \<bar>w\<bar> \<le> 1 / 2 * 2 ^ 1024" using w by (intro mult_mono) simp_all
  then have "\<bar>pz * w\<bar> \<le> 2 ^ 1023" by (simp add: abs_mult)
  then have "float_mul (Finite pz) (Finite w) = Finite v"
    unfolding v_def by (rule float_mul_Finite) simp
  then have ret: "C_z (init Model) (Finite w) = (Inr (Finite v), init Model)"
    using PTzwz_Model(1) by (simp add: C_z_def pz_def)
  have pz0: "pz < 0" using pz by (simp add: field_simps)
  have sign: "v * w \<le> 0"
  proof (cases "0 \<le> w")
    case True
    then have "pz * w \<le> 0" using pz0 by (simp add: mult_le_0_iff)
    then have "v \<le> 0" unfolding v_def by (rule round64_nonpos)
    then show ?thesis using True by (simp add: mult_le_0_iff)
  next
    case False
    then have "0 \<le> pz * w" using pz0 by (simp add: zero_le_mult_iff)
    then have "0 \<le> v" unfolding v_def by (rule round64_nonneg)
    then show ?thesis using False by (simp add: mult_le_0_iff)
  qed
  have strict: "v * w < 0" if big: "1 / 2 ^ 1007 \<le> \<bar>w\<bar>"
  proof -
    have "1 / 2 ^ 15 \<le> \<bar>pz\<bar>" using pz by (simp add: abs_if)
    then have "1 / 2 ^ 15 * (1 / 2 ^ 1007) \<le> \<bar>pz\<bar> * \<bar>w\<bar>" using big by (intro mult_mono) simp_all
    then have "2 powr of_int (- 1022) \<le> \<bar>pz * w\<bar>"
      by (simp add: abs_mult powr_minus_divide)
    then have "2 powr of_int (- 1022) \<le> \<bar>v\<bar>" unfolding v_def by (rule round64_abs_ge) simp
    then have "v \<noteq> 0" using powr_gt_zero [of 2 "of_int (- 1022)"] by auto
    moreover have "w \<noteq> 0" using big by auto
    ultimately show ?thesis using sign by (simp add: mult_le_0_iff less_le)
  qed
  show "\<exists>v. C_z (init Model) (Finite w) = (Inr (Finite v), init Model) \<and> v * w \<le> 0 \<and>
           (1 / 2 ^ 1007 \<le> \<bar>w\<bar> \<longrightarrow> v * w < 0)"
    using ret sign strict by blast
qed

text \<open>
  On \<^verbatim>\<open>Model(PTzwz=2.0)\<close>, \<^verbatim>\<open>C_z(3.0)\<close> returns \<open>6\<close> and \<^verbatim>\<open>C_z(0.0)\<close> returns \<open>0\<close>; on
  \<^verbatim>\<open>Model()\<close>, \<^verbatim>\<open>C_z(3.0)\<close> returns a negative number.
\<close>

theorem C_z_value_witness:
  "C_z ((init Model)\<lparr>PTzwz := Finite 2\<rparr>) (Finite 3)
     = (Inr (Finite 6), (init Model)\<lparr>PTzwz := Finite 2\<rparr>) \<and>
   C_z ((init Model)\<lparr>PTzwz := Finite 2\<rparr>) (Finite 0)
     = (Inr (Finite 0), (init Model)\<lparr>PTzwz := Finite 2\<rparr>) \<and>
   (\<exists>v. C_z (init Model) (Finite 3) = (Inr (Finite v), init Model) \<and> v < 0)"
  using C_z_value [where m = "(init Model)\<lparr>PTzwz := Finite 2\<rparr>" and pz = 2
      and wz = "Finite 3" and w = 3 and v = 6]
    small_rounds
  by (auto simp: DBL_MAX_def)

text \<open>
  C6, as stated, fails: on \<^verbatim>\<open>Model()\<close> the call \<^verbatim>\<open>C_z(2.0 ** -1074)\<close> returns \<open>0\<close>,
  which is neither the product \<open>PTzwz\<cdot>2\<^sup>-\<^sup>1\<^sup>0\<^sup>7\<^sup>4\<close> nor of the sign opposite to that of
  \<open>wz\<close>.
\<close>

theorem C_z_value_counterexample:
  "C_z (init Model) (Finite (1 / 2 ^ 1074)) = (Inr (Finite 0), init Model)"
proof -
  define pz where "pz = round64 (- 0.000034)"
  have pz: "- (1 / 2 ^ 14) \<le> pz" "pz \<le> - (1 / 2 ^ 15)"
    unfolding pz_def by (rule PTzwz_Model)+
  then have "\<bar>pz\<bar> \<le> 1 / 2 ^ 14" by (simp add: abs_if)
  then have "\<bar>pz\<bar> * (1 / 2 ^ 1074) \<le> 1 / 2 ^ 14 * (1 / 2 ^ 1074)" by (intro mult_right_mono) simp_all
  then have "\<bar>pz * (1 / 2 ^ 1074)\<bar> < 1 / 2 ^ 1075" by (simp add: abs_mult)
  then have "round64 (pz * (1 / 2 ^ 1074)) = 0" by (rule round64_tiny)
  then have "to_float (pz * (1 / 2 ^ 1074)) = Finite 0"
    by (simp add: to_float_def DBL_MAX_def)
  then show ?thesis using PTzwz_Model(1) by (simp add: C_z_def pz_def)
qed

text \<open>
  C10, as the code has it. For every model instance with a finite \<open>alpha_0\<close> and every
  real \<open>\<epsilon>\<close>, \<open>C_drag\<close> gives the same outcome, value or exception, at the two
  arguments \<open>alpha_0 + \<epsilon>\<close> and \<open>alpha_0 - \<epsilon>\<close>, when these two numbers are passed as
  they are. A caller that computes the two arguments in floats passes their roundings
  instead, and the symmetry is lost.
\<close>

theorem C_drag_symmetric:
  "alpha_0 m = Finite a0 \<longrightarrow> C_drag m (Finite (a0 + \<epsilon>)) = C_drag m (Finite (a0 - \<epsilon>))"
proof
  assume "alpha_0 m = Finite a0"
  then have "float_sub (Finite (a0 + \<epsilon>)) (alpha_0 m) = to_float \<epsilon>"
    "float_sub (Finite (a0 - \<epsilon>)) (alpha_0 m) = to_float (- \<epsilon>)"
    by simp_all
  then show "C_drag m (Finite (a0 + \<epsilon>)) = C_drag m (Finite (a0 - \<epsilon>))"
    by (simp add: C_drag_def float_pow2_to_float_minus)
qed

text \<open>
  On \<^verbatim>\<open>Model(alpha_0=1.0)\<close>, \<^verbatim>\<open>C_drag(1.5)\<close> and \<^verbatim>\<open>C_drag(0.5)\<close> are equal.
\<close>

theorem C_drag_symmetric_witness:
  "alpha_0 ((init Model)\<lparr>alpha_0 := Finite 1\<rparr>) = Finite 1 \<and>
   C_drag ((init Model)\<lparr>alpha_0 := Finite 1\<rparr>) (Finite (1 + 1 / 2))
     = C_drag ((init Model)\<lparr>alpha_0 := Finite 1\<rparr>) (Finite (1 - 1 / 2))"
  using C_drag_symmetric [where m = "(init Model)\<lparr>alpha_0 := Finite 1\<rparr>" and ?a0.0 = 1
      and \<epsilon> = "1 / 2"]
  by simp

text \<open>
  C10, as stated, fails: on \<^verbatim>\<open>Model(PD0=0.0, PDa=1.0, alpha_0=1.0)\<close> with
  \<open>\<epsilon> = 2\<^sup>-\<^sup>5\<^sup>3\<close>, the call \<^verbatim>\<open>C_drag(alpha_0 + eps)\<close> returns \<open>0\<close>, because the sum
  rounds to \<open>1\<close>, and \<^verbatim>\<open>C_drag(alpha_0 - eps)\<close> returns \<open>2\<^sup>-\<^sup>1\<^sup>0\<^sup>6\<close>.
\<close>

theorem C_drag_symmetric_counterexample:
  "fst (C_drag ((init Model)\<lparr>PD0 := Finite 0, PDa := Finite 1, alpha_0 := Finite 1\<rparr>)
          (float_add (Finite 1) (Finite (1 / 2 ^ 53)))) = Inr (Finite 0) \<and>
   fst (C_drag ((init Model)\<lparr>PD0 := Finite 0, PDa := Finite 1, alpha_0 := Finite 1\<rparr>)
          (float_sub (Finite 1) (Finite (1 / 2 ^ 53)))) = Inr (Finite (1 / 2 ^ 106))"
proof -
  define m where "m = (init Model)\<lparr>PD0 := Finite 0, PDa := Finite 1, alpha_0 := Finite 1\<rparr>"
  define lo :: real where "lo = 1 - 1 / 2 ^ 53"
  define sq :: real where "sq = 1 / 2 ^ 106"
  have m: "PD0 m = Finite 0" "PDa m = Finite 1" "alpha_0 m = Finite 1" by (simp_all add: m_def)
  have "to_float (1 + 1 / 2 ^ 53) = Finite (round64 (1 + 1 / 2 ^ 53))"
    by (rule to_float_Finite [of _ 1]) simp_all
  then have up: "float_add (Finite 1) (Finite (1 / 2 ^ 53)) = Finite 1"
    by (simp only: float_add.simps round64_one_plus_half_ulp)
  have "to_float lo = Finite lo"
    by (rule to_float_dyadic [where n = "2 ^ 53 - 1" and k = 53]) (simp_all add: lo_def)
  then have down: "float_sub (Finite 1) (Finite (1 / 2 ^ 53)) = Finite lo"
    by (simp only: float_sub.simps lo_def)
  have d: "to_float (lo - 1) = Finite (lo - 1)"
    by (rule to_float_dyadic [where n = "- 1" and k = 53]) (simp_all add: lo_def)
  have s: "to_float sq = Finite sq"
    by (rule to_float_dyadic [where n = 1 and k = 106]) (simp_all add: sq_def)
  have "(lo - 1) * (lo - 1) = sq" by (simp add: lo_def sq_def)
  then have p: "to_float ((lo - 1) * (lo - 1)) = Finite sq" using s by simp
  have "fst (C_drag m (Finite lo)) = Inr (Finite sq)"
    by (simp add: C_drag_def m d p s)
  moreover have "fst (C_drag m (Finite 1)) = Inr (Finite 0)"
    by (simp add: C_drag_def m to_float_zero)
  ultimately show ?thesis unfolding up down m_def sq_def by simp
qed

section \<open>The preset classes\<close>

text \<open>
  C7. Every one of the nine preset classes has the coefficient functions of
  \<^verbatim>\<open>Model\<close>: each of the five method names resolves, on the preset, to the very
  function that the body of \<^verbatim>\<open>Model\<close> defines, and on the preset's instance each
  method returns what the formula of \<^verbatim>\<open>Model\<close>, in float arithmetic, gives at the
  preset's parameter values. The presets differ in parameter values only.
\<close>

theorem presets_same_functions:
  "c \<in> set presets \<longrightarrow>
     lookup_method c ''C_lift'' = Some (Unary C_lift) \<and>
     lookup_method c ''C_drag'' = Some (Unary C_drag) \<and>
     lookup_method c ''C_x'' = Some (Binary C_x) \<and>
     lookup_method c ''C_y'' = Some (Binary C_y) \<and>
     lookup_method c ''C_z'' = Some (Unary C_z) \<and>
     class_methods c = Map.empty \<and>
     fst (C_lift (init c) alpha)
       = Inr (float_add (PL0 (init c)) (float_mul (PLa (init c)) alpha)) \<and>
     fst (C_drag (init c) alpha)
       = (case float_pow2 (float_sub alpha (alpha_0 (init c))) of
            Inl e \<Rightarrow> Inl e
          | Inr s \<Rightarrow> Inr (float_add (PD0 (init c)) (float_mul (PDa (init c)) s))) \<and>
     fst (C_x (init c) wx wz)
       = Inr (float_add (float_mul (PTxwx (init c)) wx) (float_mul (PTxwz (init c)) wz)) \<and>
     fst (C_y (init c) alpha wy)
       = Inr (float_add (float_add (PTy0 (init c)) (float_mul (PTywy (init c)) wy))
                (float_mul (PTya (init c)) alpha)) \<and>
     fst (C_z (init c) wz) = Inr (float_mul (PTzwz (init c)) wz)"
  by (cases c)
     (simp_all add: presets_def lookup_method_def mro_def C_lift_def C_drag_def C_x_def
        C_y_def C_z_def split: sum.splits)

text \<open>
  \<^verbatim>\<open>JankieModel\<close> is one of the presets; its \<open>C_lift\<close> and \<open>C_drag\<close> are those of
  \<^verbatim>\<open>Model\<close>, and its lift coefficient at \<open>1\<close> is \<open>999 + 999\<close>.
\<close>

theorem presets_same_functions_witness:
  "JankieModel \<in> set presets \<and>
   lookup_method JankieModel ''C_lift'' = Some (Unary C_lift) \<and>
   lookup_method JankieModel ''C_drag'' = Some (Unary C_drag) \<and>
   fst (C_lift (init JankieModel) (Finite 1)) = Inr (Finite 1998)"
  using presets_same_functions [where c = JankieModel and alpha = "Finite 1"]
    Jankie_floats
  by (simp add: presets_def)

text \<open>
  C9. Every class leaves \<open>PDa\<close>, \<open>PTxwx\<close>, \<open>PTxwz\<close>, \<open>PTywy\<close>, \<open>PTzwz\<close> and \<open>alpha_0\<close>
  at the defaults of \<^verbatim>\<open>Model\<close>; hence \<open>C_x\<close> and \<open>C_z\<close> return the same values on the
  default instances of all ten classes, for all float inputs, and \<^verbatim>\<open>HummelModel()\<close>
  has the same eleven parameters as \<^verbatim>\<open>Model()\<close>.
\<close>

theorem preset_defaults:
  "PDa (init c) = PDa (init Model) \<and>
   PTxwx (init c) = PTxwx (init Model) \<and>
   PTxwz (init c) = PTxwz (init Model) \<and>
   PTywy (init c) = PTywy (init Model) \<and>
   PTzwz (init c) = PTzwz (init Model) \<and>
   alpha_0 (init c) = alpha_0 (init Model) \<and>
   fst (C_x (init c) wx wz) = fst (C_x (init Model) wx wz) \<and>
   fst (C_z (init c) wz) = fst (C_z (init Model) wz) \<and>
   init HummelModel = init Model"
  by (cases c) (simp_all add: C_x_def C_z_def Model_fields_def)

section \<open>Exceptions and purity\<close>

text \<open>
  C8, as the code has it. For every model instance and all float inputs, finite or
  not, no method changes a field of the model, and \<open>C_lift\<close>, \<open>C_x\<close>, \<open>C_y\<close> and
  \<open>C_z\<close> return a float and never raise. \<open>C_drag\<close> returns a float when \<open>alpha\<close> and
  \<open>alpha_0\<close> are finite with \<open>\<bar>alpha - alpha_0\<bar> \<le> 2\<^sup>5\<^sup>1\<^sup>1\<close>, and raises \<^verbatim>\<open>OverflowError\<close>,
  from the power \<^verbatim>\<open>** 2\<close>, when they are finite with
  \<open>2\<^sup>5\<^sup>1\<^sup>2 \<le> \<bar>alpha - alpha_0\<bar> \<le> 2\<^sup>1\<^sup>0\<^sup>2\<^sup>3\<close>.
\<close>

theorem float_methods_raise_only_on_overflow:
  "snd (C_lift m alpha) = m \<and> snd (C_drag m alpha) = m \<and>
   snd (C_x m wx wz) = m \<and> snd (C_y m alpha wy) = m \<and>
   snd (C_z m wz) = m \<and>
   (\<exists>v. fst (C_lift m alpha) = Inr v) \<and>
   (\<exists>v. fst (C_x m wx wz) = Inr v) \<and>
   (\<exists>v. fst (C_y m alpha wy) = Inr v) \<and>
   (\<exists>v. fst (C_z m wz) = Inr v) \<and>
   (alpha = Finite a \<and> alpha_0 m = Finite a0 \<and> \<bar>a - a0\<bar> \<le> 2 ^ 511 \<longrightarrow>
      (\<exists>v. fst (C_drag m alpha) = Inr v)) \<and>
   (alpha = Finite a \<and> alpha_0 m = Finite a0 \<and> 2 ^ 512 \<le> \<bar>a - a0\<bar> \<and> \<bar>a - a0\<bar> \<le> 2 ^ 1023 \<longrightarrow>
      fst (C_drag m alpha) = Inl OverflowError)"
proof -
  have "snd (C_drag m alpha) = m"
    by (simp add: C_drag_def split: sum.splits)
  moreover have "snd (C_lift m alpha) = m" "snd (C_x m wx wz) = m"
    "snd (C_y m alpha wy) = m" "snd (C_z m wz) = m"
    by (simp_all add: C_lift_def C_x_def C_y_def C_z_def)
  moreover have "\<exists>v. fst (C_lift m alpha) = Inr v" "\<exists>v. fst (C_x m wx wz) = Inr v"
    "\<exists>v. fst (C_y m alpha wy) = Inr v" "\<exists>v. fst (C_z m wz) = Inr v"
    by (simp_all add: C_lift_def C_x_def C_y_def C_z_def)
  ultimately show ?thesis
    using C_drag_returns [of alpha a m a0] C_drag_raises [of alpha a m a0]
    by blast
qed

text \<open>
  On \<^verbatim>\<open>Model()\<close>, \<^verbatim>\<open>C_drag(0.0)\<close> returns a float and \<^verbatim>\<open>C_drag(2.0 ** 600)\<close> raises.
\<close>

theorem float_methods_raise_only_on_overflow_witness:
  "alpha_0 (init Model) = Finite (5030569068109113 / 2 ^ 56) \<and>
   \<bar>0 - 5030569068109113 / 2 ^ 56\<bar> \<le> (2::real) ^ 511 \<and>
   (\<exists>v. fst (C_drag (init Model) (Finite 0)) = Inr v) \<and>
   (2::real) ^ 512 \<le> \<bar>2 ^ 600 - 5030569068109113 / 2 ^ 56\<bar> \<and>
   \<bar>2 ^ 600 - 5030569068109113 / 2 ^ 56\<bar> \<le> (2::real) ^ 1023 \<and>
   fst (C_drag (init Model) (Finite (2 ^ 600))) = Inl OverflowError"
  using
    float_methods_raise_only_on_overflow
      [where m = "init Model" and alpha = "Finite 0" and a = 0
         and ?a0.0 = "5030569068109113 / 2 ^ 56"]
    float_methods_raise_only_on_overflow
      [where m = "init Model" and alpha = "Finite (2 ^ 600)" and a = "2 ^ 600"
         and ?a0.0 = "5030569068109113 / 2 ^ 56"]
    fields_Model(2)
  by simp

text \<open>
  C8, as stated, fails: on the default instance \<^verbatim>\<open>Model()\<close> the call
  \<^verbatim>\<open>C_drag(2.0 ** 700)\<close> does not return a value, it raises \<^verbatim>\<open>OverflowError\<close>.
\<close>

theorem float_methods_never_raise_counterexample:
  "fst (C_drag (init Model) (Finite (2 ^ 700))) = Inl OverflowError"
  by (rule C_drag_raises [OF refl fields_Model(2)]) simp_all

end
